theory Spec2Isabelle
  imports Complex_Main "HOL-Library.Sublist"
begin

section \<open>Python's posixpath functions\<close>

text \<open>
  The three launchers compute every path with \<^verbatim>\<open>os.path\<close>. The functions below follow
  CPython's \<^verbatim>\<open>posixpath\<close> module line by line; a path is a \<^typ>\<open>string\<close>.
\<close>

definition path_join :: "string \<Rightarrow> string \<Rightarrow> string" where
  \<comment> \<open>\<^verbatim>\<open>os.path.join(a, b)\<close>: an absolute second component discards the first.\<close>
  "path_join a b =
     (if prefix ''/'' b then b
      else if a = [] \<or> last a = CHR ''/'' then a @ b
      else a @ ''/'' @ b)"

primrec split_sep :: "string \<Rightarrow> string list" where
  \<comment> \<open>\<^verbatim>\<open>path.split('/')\<close>\<close>
  "split_sep [] = [[]]"
| "split_sep (c # cs) =
     (if c = CHR ''/'' then [] # split_sep cs
      else (case split_sep cs of [] \<Rightarrow> [[c]] | w # ws \<Rightarrow> (c # w) # ws))"

primrec join_sep :: "string list \<Rightarrow> string" where
  \<comment> \<open>\<^verbatim>\<open>'/'.join(comps)\<close>\<close>
  "join_sep [] = []"
| "join_sep (w # ws) = (if ws = [] then w else w @ ''/'' @ join_sep ws)"

definition norm_step :: "nat \<Rightarrow> string list \<Rightarrow> string \<Rightarrow> string list" where
  \<comment> \<open>one iteration of the loop over the components in \<^verbatim>\<open>normpath\<close>\<close>
  "norm_step initial_slashes new_comps part =
     (if part = [] \<or> part = ''.'' then new_comps
      else if part \<noteq> ''..'' \<or> (initial_slashes = 0 \<and> new_comps = [])
              \<or> (new_comps \<noteq> [] \<and> last new_comps = ''..'')
        then new_comps @ [part]
      else if new_comps \<noteq> [] then butlast new_comps
      else new_comps)"

definition normpath :: "string \<Rightarrow> string" where
  "normpath path =
     (if path = [] then ''.''
      else
        let initial_slashes =
              (if prefix ''/'' path
               then (if prefix ''//'' path \<and> \<not> prefix ''///'' path then 2 else 1)
               else 0);
            comps = foldl (norm_step initial_slashes) [] (split_sep path);
            p = replicate initial_slashes CHR ''/'' @ join_sep comps
        in if p = [] then ''.'' else p)"

definition abspath :: "string \<Rightarrow> string \<Rightarrow> string" where
  \<comment> \<open>\<^verbatim>\<open>os.path.abspath(path)\<close> in working directory \<open>cwd\<close>; no file system access.\<close>
  "abspath cwd path = normpath (if prefix ''/'' path then path else path_join cwd path)"

definition rstrip_sep :: "string \<Rightarrow> string" where
  \<comment> \<open>\<^verbatim>\<open>s.rstrip('/')\<close>\<close>
  "rstrip_sep s = rev (dropWhile (\<lambda>c. c = CHR ''/'') (rev s))"

definition basename :: "string \<Rightarrow> string" where
  \<comment> \<open>\<^verbatim>\<open>p[p.rfind('/') + 1:]\<close>\<close>
  "basename p = rev (takeWhile (\<lambda>c. c \<noteq> CHR ''/'') (rev p))"

definition dirname :: "string \<Rightarrow> string" where
  \<comment> \<open>\<^verbatim>\<open>head = p[:p.rfind('/') + 1]\<close>, stripped of trailing slashes unless it is all slashes\<close>
  "dirname p =
     (let head = rev (dropWhile (\<lambda>c. c \<noteq> CHR ''/'') (rev p))
      in if head \<noteq> [] \<and> head \<noteq> replicate (length head) CHR ''/'' then rstrip_sep head
         else head)"

fun nat_str :: "nat \<Rightarrow> string" where
  "nat_str n =
     (if n < 10 then [''0123456789'' ! n]
      else nat_str (n div 10) @ [''0123456789'' ! (n mod 10)])"

definition int_str :: "int \<Rightarrow> string" where
  \<comment> \<open>how an f-string renders a Python \<^verbatim>\<open>int\<close>\<close>
  "int_str i = (if i < 0 then ''-'' @ nat_str (nat (- i)) else nat_str (nat i))"

definition bool_lower :: "bool \<Rightarrow> string" where
  \<comment> \<open>\<^verbatim>\<open>str(b).lower()\<close>\<close>
  "bool_lower b = (if b then ''true'' else ''false'')"


section \<open>The host: environment, file system, container runtime\<close>

text \<open>
  What a launcher reads from its surroundings is a record \<open>host\<close>; what it changes is a
  record \<open>world\<close>: the directory tree and the sequence of observable events.

  The directory tree is an association list from absolute normalised paths to the kind
  of node that \<^verbatim>\<open>os.stat\<close> reports there (so a path that is a symbolic link to a
  directory is listed as \<open>Dir\<close>). Which paths are symbolic links, and where they point,
  is the separate table \<open>links\<close>. Paths are looked up lexically after \<^verbatim>\<open>abspath\<close>;
  permissions are not modelled.
\<close>

datatype node = File | Dir

datatype exn = FileExistsError | NotADirectoryError | FileNotFoundError

datatype outcome =
    Exit nat                \<comment> \<open>\<^verbatim>\<open>sys.exit(n)\<close>\<close>
  | UsageError string       \<comment> \<open>\<^verbatim>\<open>raise app.UsageError(msg)\<close>\<close>
  | Raised exn              \<comment> \<open>an exception nobody catches\<close>

datatype event =
    ErrorMsg string                               \<comment> \<open>\<^verbatim>\<open>logging.error\<close> or an error \<^verbatim>\<open>print\<close>\<close>
  | Warning string                                \<comment> \<open>\<^verbatim>\<open>logging.warning\<close>\<close>
  | Binding string string                         \<comment> \<open>\<^verbatim>\<open>logging.info('Binding %s -> %s', ...)\<close>\<close>
  | ImageLoaded string                            \<comment> \<open>\<^verbatim>\<open>Client.load(path)\<close> returned\<close>
  | Executed string "string list" "string list" bool
      \<comment> \<open>\<^verbatim>\<open>Client.execute(image, command, nv=..., options=...)\<close> was called\<close>
  | Finished                                      \<comment> \<open>the final \<^verbatim>\<open>logging.info('... finished.')\<close>\<close>

record host =
  cwd :: string                                   \<comment> \<open>\<^verbatim>\<open>os.getcwd()\<close>\<close>
  env :: "string \<rightharpoonup> string"                 \<comment> \<open>\<^verbatim>\<open>os.environ\<close>\<close>
  pw_dir :: "string \<rightharpoonup> string"              \<comment> \<open>home directories of the password database\<close>
  user :: string                                  \<comment> \<open>the name of the current user\<close>
  links :: "(string \<times> string) list"            \<comment> \<open>symbolic links and their targets\<close>
  now :: string                                   \<comment> \<open>\<^verbatim>\<open>datetime.now().strftime('%Y-%m-%d_%H-%M-%S')\<close>\<close>
  cpu_count :: int                                \<comment> \<open>\<^verbatim>\<open>multiprocessing.cpu_count()\<close>\<close>
  float_str :: "real \<Rightarrow> string"                  \<comment> \<open>how an f-string renders a \<^verbatim>\<open>float\<close>\<close>
  loadable :: "string \<Rightarrow> bool"                  \<comment> \<open>whether \<^verbatim>\<open>Client.load\<close> returns\<close>
  runs :: "string list \<Rightarrow> string list \<Rightarrow> bool"  \<comment> \<open>whether \<^verbatim>\<open>Client.execute\<close> streams to the end\<close>

record world =
  nodes :: "(string \<times> node) list"
  events :: "event list"

definition exit_code :: "outcome \<Rightarrow> nat" where
  \<comment> \<open>absl turns a \<^verbatim>\<open>UsageError\<close> into exit code 1; so does Python for an uncaught exception.\<close>
  "exit_code out = (case out of Exit n \<Rightarrow> n | UsageError _ \<Rightarrow> 1 | Raised _ \<Rightarrow> 1)"

definition emit :: "event \<Rightarrow> world \<Rightarrow> world" where
  "emit e w = w\<lparr>events := events w @ [e]\<rparr>"

definition expanduser :: "host \<Rightarrow> string \<Rightarrow> string" where
  \<comment> \<open>\<^verbatim>\<open>os.path.expanduser(path)\<close>\<close>
  "expanduser h path =
     (if \<not> prefix ''~'' path then path
      else
        let name = takeWhile (\<lambda>c. c \<noteq> CHR ''/'') (tl path);
            rest = dropWhile (\<lambda>c. c \<noteq> CHR ''/'') (tl path);
            userhome = (if name = []
                        then (case env h ''HOME'' of Some d \<Rightarrow> Some d | None \<Rightarrow> pw_dir h (user h))
                        else pw_dir h name)
        in case userhome of
             None \<Rightarrow> path
           | Some d \<Rightarrow> (if rstrip_sep d @ rest = [] then ''/'' else rstrip_sep d @ rest))"

definition fs_key :: "host \<Rightarrow> string \<Rightarrow> string" where
  \<comment> \<open>the key of a path in the directory tree: the kernel reads a leading \<open>//\<close> as \<open>/\<close>\<close>
  "fs_key h p = (let q = abspath (cwd h) p in if prefix ''//'' q then tl q else q)"

definition stat :: "(string \<times> node) list \<Rightarrow> string \<Rightarrow> node option" where
  "stat ns q = (if q = ''/'' then Some Dir else map_of ns q)"

definition path_exists :: "host \<Rightarrow> world \<Rightarrow> string \<Rightarrow> bool" where
  \<comment> \<open>\<^verbatim>\<open>os.path.exists(p)\<close>\<close>
  "path_exists h w p = (p \<noteq> [] \<and> stat (nodes w) (fs_key h p) \<noteq> None)"

definition path_isdir :: "host \<Rightarrow> world \<Rightarrow> string \<Rightarrow> bool" where
  "path_isdir h w p = (p \<noteq> [] \<and> stat (nodes w) (fs_key h p) = Some Dir)"

definition path_isfile :: "host \<Rightarrow> world \<Rightarrow> string \<Rightarrow> bool" where
  "path_isfile h w p = (p \<noteq> [] \<and> stat (nodes w) (fs_key h p) = Some File)"

definition ancestors :: "string \<Rightarrow> string list" where
  \<comment> \<open>the proper ancestors of an absolute normalised path, from the root down\<close>
  "ancestors q =
     (let comps = filter (\<lambda>c. c \<noteq> []) (split_sep q)
      in map (\<lambda>cs. ''/'' @ join_sep cs) (butlast (prefixes comps)))"

definition mk_dir :: "(string \<times> node) list \<Rightarrow> string \<Rightarrow> (string \<times> node) list" where
  "mk_dir ns a = (if stat ns a = None then (a, Dir) # ns else ns)"

definition makedirs :: "host \<Rightarrow> world \<Rightarrow> string \<Rightarrow> outcome + world" where
  \<comment> \<open>\<^verbatim>\<open>os.makedirs(p, exist_ok=True)\<close>: creates the missing ancestors and the directory;
      raises when an ancestor or the path itself is a regular file.\<close>
  "makedirs h w p =
     (if p = [] then Inl (Raised FileNotFoundError)
      else
        let q = fs_key h p
        in if \<exists>a \<in> set (ancestors q). stat (nodes w) a = Some File
             then Inl (Raised NotADirectoryError)
           else if stat (nodes w) q = Some File then Inl (Raised FileExistsError)
           else Inr (w\<lparr>nodes := foldl mk_dir (nodes w) (ancestors q @ [q])\<rparr>))"

definition listdir :: "host \<Rightarrow> world \<Rightarrow> string \<Rightarrow> outcome + string list" where
  \<comment> \<open>\<^verbatim>\<open>os.listdir(p)\<close>\<close>
  "listdir h w p =
     (if p = [] then Inl (Raised FileNotFoundError)
      else
        let q = fs_key h p
        in case stat (nodes w) q of
             None \<Rightarrow> Inl (Raised FileNotFoundError)
           | Some File \<Rightarrow> Inl (Raised NotADirectoryError)
           | Some Dir \<Rightarrow>
               Inr (map basename
                      (filter (\<lambda>k. k \<noteq> q \<and> dirname k = q) (remdups (map fst (nodes w))))))"

definition rmdir :: "host \<Rightarrow> world \<Rightarrow> string \<Rightarrow> world" where
  \<comment> \<open>\<^verbatim>\<open>os.rmdir(p)\<close> of an existing empty directory\<close>
  "rmdir h w p = w\<lparr>nodes := filter (\<lambda>(k, _). k \<noteq> fs_key h p) (nodes w)\<rparr>"


section \<open>The bind-path resolver of each launcher\<close>

type_synonym 'a result = "(outcome + 'a) \<times> world"

definition boltz_ROOT_MOUNT_DIRECTORY :: string where
  "boltz_ROOT_MOUNT_DIRECTORY = ''/mnt_launcher/''"

definition chai_ROOT_MOUNT_DIRECTORY :: string where
  "chai_ROOT_MOUNT_DIRECTORY = ''/mnt/''"

definition af3_ROOT_MOUNT_DIRECTORY :: string where
  "af3_ROOT_MOUNT_DIRECTORY = ''/mnt/''"

definition boltz_create_bind ::
  "host \<Rightarrow> world \<Rightarrow> string \<Rightarrow> string \<Rightarrow> bool \<Rightarrow> bool \<Rightarrow> (string \<times> string) result" where
  \<comment> \<open>\<^verbatim>\<open>_create_bind\<close> of \<^verbatim>\<open>boltz/run_boltz_launcher.py\<close>\<close>
  "boltz_create_bind h w mount_point_name host_path0 is_dir read_only =
     (let host_path = abspath (cwd h) (expanduser h host_path0);
          target_base = path_join boltz_ROOT_MOUNT_DIRECTORY mount_point_name;
          source_path = (if is_dir then host_path else dirname host_path);
          target_path_container =
            (if is_dir then target_base else path_join target_base (basename host_path));
          actual_bind_target = target_base;
          bind_spec = source_path @ '':'' @ actual_bind_target @ (if read_only then '':ro'' else [])
      in if prefix ''output'' mount_point_name \<or> mount_point_name = ''tmp''
            \<or> mount_point_name = ''boltz_cache''
         then (case makedirs h w host_path of
                 Inl e \<Rightarrow> (Inl e, w)
               | Inr w' \<Rightarrow> (Inr (bind_spec, target_path_container),
                            emit (Binding source_path actual_bind_target) w'))
         else if \<not> path_exists h w source_path
         then (Inl (Exit 1),
               emit (ErrorMsg (''Host path for binding does not exist: '' @ source_path
                               @ '' (for mount '' @ mount_point_name @ '')'')) w)
         else (Inr (bind_spec, target_path_container),
               emit (Binding source_path actual_bind_target) w))"

definition chai_create_bind ::
  "host \<Rightarrow> world \<Rightarrow> string \<Rightarrow> string \<Rightarrow> bool \<Rightarrow> (string \<times> string) result" where
  \<comment> \<open>\<^verbatim>\<open>_create_bind\<close> of \<^verbatim>\<open>chai_1/run_chailab_launcher.py\<close>\<close>
  "chai_create_bind h w mount_point_name host_path0 is_dir =
     (let host_path = abspath (cwd h) host_path0;
          target_base = path_join chai_ROOT_MOUNT_DIRECTORY mount_point_name;
          source_path = (if is_dir then host_path else dirname host_path);
          target_path = target_base;
          container_path =
            (if is_dir then target_path else path_join target_path (basename host_path));
          bind_spec = source_path @ '':'' @ target_path
      in if prefix ''output'' mount_point_name \<or> mount_point_name = ''tmp''
         then (case makedirs h w source_path of
                 Inl e \<Rightarrow> (Inl e, w)
               | Inr w' \<Rightarrow> (Inr (bind_spec, container_path),
                            emit (Binding source_path target_path) w'))
         else if \<not> path_exists h w source_path
         then (Inl (Exit 1),
               emit (ErrorMsg (''Host path for binding does not exist: '' @ source_path
                               @ '' (for mount '' @ mount_point_name @ '')'')) w)
         else (Inr (bind_spec, container_path), emit (Binding source_path target_path) w))"

definition af3_create_bind ::
  "host \<Rightarrow> world \<Rightarrow> string \<Rightarrow> string \<Rightarrow> bool \<Rightarrow> (string \<times> string) result" where
  \<comment> \<open>\<^verbatim>\<open>_create_bind\<close> of \<^verbatim>\<open>run_alphafold3_launcher.py\<close>: no existence check\<close>
  "af3_create_bind h w mount_point_name host_path0 is_dir =
     (let host_path = abspath (cwd h) host_path0;
          target_base = path_join af3_ROOT_MOUNT_DIRECTORY mount_point_name;
          source_path = (if is_dir then host_path else dirname host_path);
          target_path = target_base;
          container_path =
            (if is_dir then target_path else path_join target_path (basename host_path));
          bind_spec = source_path @ '':'' @ target_path
      in if prefix ''output'' mount_point_name \<or> mount_point_name = ''tmp''
         then (case makedirs h w source_path of
                 Inl e \<Rightarrow> (Inl e, w)
               | Inr w' \<Rightarrow> (Inr (bind_spec, container_path),
                            emit (Binding source_path target_path) w'))
         else (Inr (bind_spec, container_path), emit (Binding source_path target_path) w))"


section \<open>Shared pieces of the three \<^verbatim>\<open>main\<close> functions\<close>

definition truthy :: "string option \<Rightarrow> bool" where
  \<comment> \<open>Python's truth value of an optional string flag: neither \<^verbatim>\<open>None\<close> nor empty\<close>
  "truthy s = (case s of None \<Rightarrow> False | Some x \<Rightarrow> x \<noteq> [])"

definition bnd :: "'a result \<Rightarrow> ('a \<Rightarrow> world \<Rightarrow> 'b result) \<Rightarrow> 'b result" where
  \<comment> \<open>sequencing: an exit or exception of the first step ends the run\<close>
  "bnd r k = (case r of (Inl e, w) \<Rightarrow> (Inl e, w) | (Inr x, w) \<Rightarrow> k x w)"

definition raising :: "world \<Rightarrow> outcome + world \<Rightarrow> unit result" where
  "raising w r = (case r of Inl e \<Rightarrow> (Inl e, w) | Inr w' \<Rightarrow> (Inr (), w'))"

definition opt_arg :: "bool \<Rightarrow> string \<Rightarrow> string list" where
  \<comment> \<open>\<^verbatim>\<open>if cond: args.append(token)\<close>\<close>
  "opt_arg cond token = (if cond then [token] else [])"

primrec comma_join :: "string list \<Rightarrow> string" where
  \<comment> \<open>\<^verbatim>\<open>",".join(binds)\<close>\<close>
  "comma_join [] = []"
| "comma_join (b # bs) = (if bs = [] then b else b @ '','' @ comma_join bs)"

definition tmp_dir :: "host \<Rightarrow> string" where
  \<comment> \<open>the module-level temporary directory, the same code in all three launchers\<close>
  "tmp_dir h =
     (case env h ''TMP'' of Some d \<Rightarrow> d
      | None \<Rightarrow> (case env h ''TMPDIR'' of Some d \<Rightarrow> d | None \<Rightarrow> ''/tmp''))"

type_synonym invocation = "string \<times> string list \<times> string list \<times> bool"
  \<comment> \<open>image, command, options and \<open>nv\<close> handed to \<^verbatim>\<open>Client.execute\<close>\<close>

definition load_image :: "host \<Rightarrow> world \<Rightarrow> string \<Rightarrow> string \<Rightarrow> unit result" where
  \<comment> \<open>the image check: \<^verbatim>\<open>os.path.exists(sif_path)\<close>, then \<^verbatim>\<open>Client.load(sif_path)\<close>\<close>
  "load_image h w sif_path hint =
     (if \<not> path_exists h w sif_path
      then (Inl (Exit 1),
            emit (ErrorMsg hint)
              (emit (ErrorMsg (''Error: Singularity image not found at '' @ sif_path)) w))
      else if \<not> loadable h sif_path
      then (Inl (Exit 1), emit (ErrorMsg (''Error loading Singularity image '' @ sif_path)) w)
      else (Inr (), emit (ImageLoaded sif_path) w))"


section \<open>The Boltz launcher\<close>

record boltz_flags =
  b_sif_path :: "string option"
  b_input_data :: "string option"
  b_out_dir :: string
  b_boltz_cache_dir :: string
  b_checkpoint :: "string option"
  b_use_gpu :: bool
  b_gpu_devices :: string
  b_devices :: int
  b_accelerator :: string
  b_recycling_steps :: int
  b_sampling_steps :: int
  b_diffusion_samples :: int
  b_step_scale :: real
  b_write_full_pae :: bool
  b_write_full_pde :: bool
  b_output_format :: string
  b_num_workers :: int
  b_override :: bool
  b_seed :: "int option"
  b_use_msa_server :: bool
  b_msa_server_url :: string
  b_msa_pairing_strategy :: string
  b_enable_potentials :: bool

definition boltz_SIF_PATH :: "host \<Rightarrow> string" where
  "boltz_SIF_PATH h =
     (case env h ''BOLTZ_SIF'' of Some p \<Rightarrow> p | None \<Rightarrow> ''/path/to/your/boltz.sif'')"

definition boltz_CACHE_DEFAULT :: "host \<Rightarrow> string" where
  "boltz_CACHE_DEFAULT h =
     (case env h ''BOLTZ_CACHE'' of Some d \<Rightarrow> d | None \<Rightarrow> expanduser h ''~/.boltz'')"

definition boltz_defaults :: "host \<Rightarrow> boltz_flags" where
  \<comment> \<open>the defaults of the \<^verbatim>\<open>flags.DEFINE_*\<close> calls\<close>
  "boltz_defaults h =
     \<lparr> b_sif_path = None, b_input_data = None,
       b_out_dir = path_join (cwd h) ''boltz_output'',
       b_boltz_cache_dir = boltz_CACHE_DEFAULT h, b_checkpoint = None,
       b_use_gpu = True, b_gpu_devices = ''all'', b_devices = 1, b_accelerator = ''gpu'',
       b_recycling_steps = 3, b_sampling_steps = 200, b_diffusion_samples = 1,
       b_step_scale = 1.638, b_write_full_pae = False, b_write_full_pde = False,
       b_output_format = ''mmcif'', b_num_workers = 2, b_override = False, b_seed = None,
       b_use_msa_server = False, b_msa_server_url = ''https://api.colabfold.com'',
       b_msa_pairing_strategy = ''greedy'', b_enable_potentials = True \<rparr>"

definition boltz_checkpoint_bind ::
  "host \<Rightarrow> boltz_flags \<Rightarrow> world \<Rightarrow> (string list \<times> string list) result" where
  \<comment> \<open>the optional checkpoint file: the binds and arguments it adds\<close>
  "boltz_checkpoint_bind h f w =
     (case b_checkpoint f of
        None \<Rightarrow> (Inr ([], []), w)
      | Some chk \<Rightarrow>
          if chk = [] then (Inr ([], []), w)
          else if \<not> path_isfile h w chk
          then (Inl (Exit 1), emit (ErrorMsg (''Checkpoint file not found: '' @ chk)) w)
          else bnd (boltz_create_bind h w ''checkpoint_file'' chk False True)
                 (\<lambda>(bind_spec, container_checkpoint) w'.
                    (Inr ([bind_spec], [''--checkpoint='' @ container_checkpoint]), w')))"

definition boltz_binds ::
  "host \<Rightarrow> boltz_flags \<Rightarrow> string \<Rightarrow> world
     \<Rightarrow> (string list \<times> string list \<times> string \<times> string \<times> string) result" where
  \<comment> \<open>``Prepare Singularity Bind Mounts'': the binds, the path arguments, and the container
      paths of the input data, the cache and the temporary directory\<close>
  "boltz_binds h f input_data w0 =
     bnd (boltz_create_bind h w0 ''input_data'' input_data (path_isdir h w0 input_data) True)
       (\<lambda>(bind1, container_input_data) w1.
     bnd (raising w1 (makedirs h w1 (b_out_dir f)))
       (\<lambda>_ w2.
     bnd (boltz_create_bind h w2 ''output'' (b_out_dir f) True False)
       (\<lambda>(bind2, container_output_dir) w3.
     bnd (raising w3 (makedirs h w3 (b_boltz_cache_dir f)))
       (\<lambda>_ w4.
     bnd (boltz_create_bind h w4 ''boltz_cache'' (b_boltz_cache_dir f) True False)
       (\<lambda>(bind3, container_boltz_cache) w5.
     bnd (boltz_checkpoint_bind h f w5)
       (\<lambda>(binds4, args4) w6.
     bnd (boltz_create_bind h w6 ''tmp'' (tmp_dir h) True False)
       (\<lambda>(bind5, container_tmp_dir) w7.
        (Inr ([bind1, bind2, bind3] @ binds4 @ [bind5],
              [''--out_dir='' @ container_output_dir, ''--cache='' @ container_boltz_cache]
                @ args4,
              container_input_data, container_boltz_cache, container_tmp_dir), w7))))))))"

definition boltz_option_args :: "host \<Rightarrow> boltz_flags \<Rightarrow> string list" where
  \<comment> \<open>``Construct Boltz Command'': the tokens appended after the path arguments\<close>
  "boltz_option_args h f =
     [if b_write_full_pae f then ''--write_full_pae'' else ''--no-write-full-pae'',
      if b_write_full_pde f then ''--write_full_pde'' else ''--no-write-full-pde'',
      if b_override f then ''--override'' else ''--no-override'',
      if b_use_msa_server f then ''--use_msa_server'' else ''--no-use-msa-server'',
      if b_enable_potentials f then ''--potentials'' else ''--no_potentials'']
     @ opt_arg (b_devices f \<noteq> 1) (''--devices='' @ int_str (b_devices f))
     @ opt_arg (b_accelerator f \<noteq> ''gpu'') (''--accelerator='' @ b_accelerator f)
     @ opt_arg (b_recycling_steps f \<noteq> 3) (''--recycling_steps='' @ int_str (b_recycling_steps f))
     @ opt_arg (b_sampling_steps f \<noteq> 200) (''--sampling_steps='' @ int_str (b_sampling_steps f))
     @ opt_arg (b_diffusion_samples f \<noteq> 1)
         (''--diffusion_samples='' @ int_str (b_diffusion_samples f))
     @ opt_arg (\<bar>b_step_scale f - 1.638\<bar> > 0.000001)
         (''--step_scale='' @ float_str h (b_step_scale f))
     @ opt_arg (b_output_format f \<noteq> ''mmcif'') (''--output_format='' @ b_output_format f)
     @ opt_arg (b_num_workers f \<noteq> 2) (''--num_workers='' @ int_str (b_num_workers f))
     @ (case b_seed f of None \<Rightarrow> [] | Some s \<Rightarrow> [''--seed='' @ int_str s])
     @ (if b_use_msa_server f
        then opt_arg (b_msa_server_url f \<noteq> ''https://api.colabfold.com'')
               (''--msa_server_url='' @ b_msa_server_url f)
             @ opt_arg (b_msa_pairing_strategy f \<noteq> ''greedy'')
                 (''--msa_pairing_strategy='' @ b_msa_pairing_strategy f)
        else [])"

definition boltz_prepare :: "host \<Rightarrow> world \<Rightarrow> string list \<Rightarrow> boltz_flags \<Rightarrow> invocation result" where
  \<comment> \<open>\<^verbatim>\<open>main\<close> up to, and without, the call of \<^verbatim>\<open>Client.execute\<close>\<close>
  "boltz_prepare h w argv f =
     (if length argv > 1 then (Inl (UsageError ''Too many command-line arguments.''), w)
      else
        let sif_path = (if truthy (b_sif_path f) then the (b_sif_path f) else boltz_SIF_PATH h)
        in bnd (load_image h w sif_path
                  ''Please set BOLTZ_SIF, update _BOLTZ_SIF_PATH, or use --sif_path.'')
             (\<lambda>_ w1.
                case b_input_data f of
                  None \<Rightarrow> (Inl (UsageError ''Missing required argument: --input_data''), w1)
                | Some input_data \<Rightarrow>
                    if input_data = []
                    then (Inl (UsageError ''Missing required argument: --input_data''), w1)
                    else
                      bnd (boltz_binds h f input_data w1)
                        (\<lambda>(binds, boltz_args, container_input_data, container_boltz_cache,
                            container_tmp_dir) w2.
                           let full_boltz_command =
                                 [''boltz'', ''predict'', container_input_data]
                                 @ boltz_args @ boltz_option_args h f;
                               singularity_options =
                                 [''--bind'', comma_join binds,
                                  ''--env'', ''NVIDIA_VISIBLE_DEVICES='' @ b_gpu_devices f,
                                  ''--env'', ''BOLTZ_CACHE='' @ container_boltz_cache]
                                 @ (if container_tmp_dir \<noteq> []
                                    then [''--env'', ''TMPDIR='' @ container_tmp_dir] else [])
                           in (Inr (sif_path, full_boltz_command, singularity_options,
                                    b_use_gpu f), w2))))"

definition client_execute :: "host \<Rightarrow> invocation \<Rightarrow> world \<Rightarrow> bool \<times> world" where
  \<comment> \<open>\<^verbatim>\<open>Client.execute(..., stream=True)\<close> and the loop printing its lines; the result
      tells whether it ended without an exception\<close>
  "client_execute h call w =
     (case call of (img, command, options, nv) \<Rightarrow>
        (runs h command options, emit (Executed img command options nv) w))"

definition boltz_main :: "host \<Rightarrow> world \<Rightarrow> string list \<Rightarrow> boltz_flags \<Rightarrow> unit result" where
  "boltz_main h w argv f =
     bnd (boltz_prepare h w argv f)
       (\<lambda>call w1.
          case client_execute h call w1 of
            (True, w2) \<Rightarrow> (Inr (), emit Finished w2)
          | (False, w2) \<Rightarrow>
              (Inl (Exit 1), emit (ErrorMsg ''Error executing Singularity command'') w2))"


section \<open>The Chai Lab launcher\<close>

record chai_flags =
  c_sif_path :: "string option"
  c_fasta_file :: "string option"
  c_output_dir :: string
  c_force_output_dir :: bool
  c_use_gpu :: bool
  c_gpu_devices :: string
  c_use_esm_embeddings :: bool
  c_use_msa_server :: bool
  c_msa_server_url :: string
  c_msa_directory :: "string option"
  c_constraint_path :: "string option"
  c_use_templates_server :: bool
  c_template_hits_path :: "string option"
  c_recycle_msa_subsample :: int
  c_num_trunk_recycles :: int
  c_num_diffn_timesteps :: int
  c_num_diffn_samples :: int
  c_num_trunk_samples :: int
  c_seed :: "int option"
  c_device :: "string option"
  c_low_memory :: bool

definition chai_SIF_PATH :: "host \<Rightarrow> string" where
  "chai_SIF_PATH h =
     (case env h ''CHAI_SIF'' of Some p \<Rightarrow> p | None \<Rightarrow> ''/path/to/your/chai_lab.sif'')"

definition chai_defaults :: "host \<Rightarrow> chai_flags" where
  "chai_defaults h =
     \<lparr> c_sif_path = None, c_fasta_file = None,
       c_output_dir = path_join (cwd h) ''chailab_output'', c_force_output_dir = False,
       c_use_gpu = True, c_gpu_devices = ''all'', c_use_esm_embeddings = True,
       c_use_msa_server = False, c_msa_server_url = ''https://api.colabfold.com'',
       c_msa_directory = None, c_constraint_path = None, c_use_templates_server = False,
       c_template_hits_path = None, c_recycle_msa_subsample = 0, c_num_trunk_recycles = 3,
       c_num_diffn_timesteps = 200, c_num_diffn_samples = 5, c_num_trunk_samples = 1,
       c_seed = None, c_device = None, c_low_memory = True \<rparr>"

definition chai_actual_output_dir :: "host \<Rightarrow> chai_flags \<Rightarrow> world \<Rightarrow> string result" where
  \<comment> \<open>the choice of \<^verbatim>\<open>actual_output_dir\<close>; \<^verbatim>\<open>and\<close> evaluates \<^verbatim>\<open>os.listdir\<close> before
      it looks at \<^verbatim>\<open>force_output_dir\<close>\<close>
  "chai_actual_output_dir h f w =
     (if path_exists h w (c_output_dir f)
      then (case listdir h w (c_output_dir f) of
              Inl e \<Rightarrow> (Inl e, w)
            | Inr entries \<Rightarrow>
                if entries \<noteq> [] \<and> \<not> c_force_output_dir f
                then (Inr (path_join (c_output_dir f) (''run_'' @ now h)),
                      emit (Warning (''Output directory '' @ c_output_dir f
                                     @ '' is not empty. Using timestamped subdirectory: ''
                                     @ path_join (c_output_dir f) (''run_'' @ now h))) w)
                else (Inr (c_output_dir f), w))
      else (Inr (c_output_dir f), w))"

definition chai_optional_bind ::
  "host \<Rightarrow> string option \<Rightarrow> string \<Rightarrow> bool \<Rightarrow> string \<Rightarrow> world
     \<Rightarrow> (string list \<times> string list) result" where
  \<comment> \<open>\<^verbatim>\<open>if FLAGS.x: bind_spec, c = _create_bind(name, FLAGS.x, is_dir); ...\<close>\<close>
  "chai_optional_bind h flag name is_dir opt w =
     (case flag of
        None \<Rightarrow> (Inr ([], []), w)
      | Some p \<Rightarrow>
          if p = [] then (Inr ([], []), w)
          else bnd (chai_create_bind h w name p is_dir)
                 (\<lambda>(bind_spec, container_path) w'. (Inr ([bind_spec], [opt @ container_path]), w')))"

definition chai_binds ::
  "host \<Rightarrow> chai_flags \<Rightarrow> string \<Rightarrow> world
     \<Rightarrow> (string list \<times> string list \<times> string \<times> string \<times> string) result" where
  \<comment> \<open>``Prepare Singularity Bind Mounts'': the binds, the path arguments, and the container
      paths of the FASTA file, the output directory and the temporary directory\<close>
  "chai_binds h f fasta_file w0 =
     bnd (chai_create_bind h w0 ''fasta'' fasta_file False)
       (\<lambda>(bind1, container_fasta_file) w1.
     bnd (chai_actual_output_dir h f w1)
       (\<lambda>actual_output_dir w2.
     bnd (raising w2 (makedirs h w2 actual_output_dir))
       (\<lambda>_ w3.
     bnd (chai_create_bind h w3 ''output'' actual_output_dir True)
       (\<lambda>(bind2, container_output_dir) w4.
     bnd (chai_optional_bind h (c_msa_directory f) ''msa_dir'' True ''--msa-directory='' w4)
       (\<lambda>(binds3, args3) w5.
     bnd (chai_optional_bind h (c_constraint_path f) ''constraints'' False
            ''--constraint-path='' w5)
       (\<lambda>(binds4, args4) w6.
     bnd (chai_optional_bind h (c_template_hits_path f) ''template_hits'' False
            ''--template-hits-path='' w6)
       (\<lambda>(binds5, args5) w7.
     bnd (chai_create_bind h w7 ''tmp'' (tmp_dir h) True)
       (\<lambda>(bind6, container_tmp_dir) w8.
        (Inr ([bind1, bind2] @ binds3 @ binds4 @ binds5 @ [bind6],
              args3 @ args4 @ args5,
              container_fasta_file, container_output_dir, container_tmp_dir), w8)))))))))"

definition chai_option_args :: "chai_flags \<Rightarrow> string list" where
  \<comment> \<open>``Construct Chai Command'': the tokens appended after the path arguments\<close>
  "chai_option_args f =
     opt_arg (\<not> c_use_esm_embeddings f) ''--use-esm-embeddings=false''
     @ opt_arg (c_use_msa_server f) ''--use-msa-server''
     @ opt_arg (c_use_templates_server f) ''--use-templates-server''
     @ opt_arg (\<not> c_low_memory f) ''--low-memory=false''
     @ opt_arg (c_msa_server_url f \<noteq> ''https://api.colabfold.com'')
         (''--msa-server-url='' @ c_msa_server_url f)
     @ opt_arg (c_recycle_msa_subsample f \<noteq> 0)
         (''--recycle-msa-subsample='' @ int_str (c_recycle_msa_subsample f))
     @ opt_arg (c_num_trunk_recycles f \<noteq> 3)
         (''--num-trunk-recycles='' @ int_str (c_num_trunk_recycles f))
     @ opt_arg (c_num_diffn_timesteps f \<noteq> 200)
         (''--num-diffn-timesteps='' @ int_str (c_num_diffn_timesteps f))
     @ opt_arg (c_num_diffn_samples f \<noteq> 5)
         (''--num-diffn-samples='' @ int_str (c_num_diffn_samples f))
     @ opt_arg (c_num_trunk_samples f \<noteq> 1)
         (''--num-trunk-samples='' @ int_str (c_num_trunk_samples f))
     @ (case c_seed f of None \<Rightarrow> [] | Some s \<Rightarrow> [''--seed='' @ int_str s])
     @ (case c_device f of None \<Rightarrow> [] | Some d \<Rightarrow> opt_arg (d \<noteq> []) (''--device='' @ d))"

definition chai_prepare :: "host \<Rightarrow> world \<Rightarrow> string list \<Rightarrow> chai_flags \<Rightarrow> invocation result" where
  \<comment> \<open>\<^verbatim>\<open>main\<close> up to, and without, the call of \<^verbatim>\<open>Client.execute\<close>\<close>
  "chai_prepare h w argv f =
     (if length argv > 1 then (Inl (UsageError ''Too many command-line arguments.''), w)
      else
        let sif_path = (if truthy (c_sif_path f) then the (c_sif_path f) else chai_SIF_PATH h)
        in bnd (load_image h w sif_path
                  ''Please set the CHAI_SIF environment variable, update the _CHAI_SIF_PATH in this script, or use the --sif_path flag.'')
             (\<lambda>_ w1.
                case c_fasta_file f of
                  None \<Rightarrow> (Inl (UsageError ''Missing required argument: --fasta_file''), w1)
                | Some fasta_file \<Rightarrow>
                    if fasta_file = []
                    then (Inl (UsageError ''Missing required argument: --fasta_file''), w1)
                    else if c_output_dir f = []
                    then (Inl (UsageError ''Missing required argument: --output_dir''), w1)
                    else
                      bnd (chai_binds h f fasta_file w1)
                        (\<lambda>(binds, chai_command_args, container_fasta_file,
                            container_output_dir, container_tmp_dir) w2.
                           let full_chai_command =
                                 [''chai-lab'', ''fold'', container_fasta_file,
                                  container_output_dir]
                                 @ chai_command_args @ chai_option_args f;
                               singularity_options =
                                 [''--bind'', comma_join binds,
                                  ''--env'', ''NVIDIA_VISIBLE_DEVICES='' @ c_gpu_devices f]
                                 @ (if container_tmp_dir \<noteq> []
                                    then [''--env'', ''TMPDIR='' @ container_tmp_dir] else [])
                           in (Inr (sif_path, full_chai_command, singularity_options,
                                    c_use_gpu f), w2))))"

definition chai_main :: "host \<Rightarrow> world \<Rightarrow> string list \<Rightarrow> chai_flags \<Rightarrow> unit result" where
  "chai_main h w argv f =
     bnd (chai_prepare h w argv f)
       (\<lambda>call w1.
          case client_execute h call w1 of
            (True, w2) \<Rightarrow> (Inr (), emit Finished w2)
          | (False, w2) \<Rightarrow>
              (Inl (Exit 1), emit (ErrorMsg ''Error executing Singularity command'') w2))"


section \<open>The AlphaFold 3 launcher\<close>

record af3_flags =
  a_json_path :: "string option"
  a_input_dir :: "string option"
  a_output_dir :: string
  a_force_output_dir :: bool
  a_model_dir :: "string option"
  a_db_dir :: "string list option"
  a_use_gpu :: bool
  a_gpu_devices :: string
  a_run_data_pipeline :: bool
  a_run_inference :: bool
  a_jackhmmer_n_cpu :: int
  a_nhmmer_n_cpu :: int
  a_max_template_date :: string
  a_conformer_max_iterations :: int
  a_num_recycles :: int
  a_num_diffusion_samples :: int
  a_num_seeds :: "int option"
  a_flash_attention_implementation :: string
  a_save_embeddings :: bool

definition af3_SIF_PATH :: "host \<Rightarrow> string" where
  "af3_SIF_PATH h =
     (case env h ''ALPHAFOLD3_SIF'' of Some p \<Rightarrow> p
      | None \<Rightarrow> ''/path/to/your/alphafold3.sif'')"

definition af3_output_dir_default :: "host \<Rightarrow> string" where
  "af3_output_dir_default h = path_join (cwd h) ''alphafold3_output''"

definition af3_defaults :: "host \<Rightarrow> af3_flags" where
  "af3_defaults h =
     \<lparr> a_json_path = None, a_input_dir = None, a_output_dir = af3_output_dir_default h,
       a_force_output_dir = False, a_model_dir = None, a_db_dir = None, a_use_gpu = True,
       a_gpu_devices = ''all'', a_run_data_pipeline = True, a_run_inference = True,
       a_jackhmmer_n_cpu = min (cpu_count h) 8, a_nhmmer_n_cpu = min (cpu_count h) 8,
       a_max_template_date = ''2021-09-30'', a_conformer_max_iterations = 10000,
       a_num_recycles = 10, a_num_diffusion_samples = 5, a_num_seeds = None,
       a_flash_attention_implementation = ''triton'', a_save_embeddings = False \<rparr>"

definition af3_input_bind ::
  "host \<Rightarrow> af3_flags \<Rightarrow> world \<Rightarrow> (string list \<times> string list) result" where
  \<comment> \<open>the input directory wins over the single JSON file\<close>
  "af3_input_bind h f w =
     (if truthy (a_input_dir f)
      then bnd (af3_create_bind h w ''input_dir'' (the (a_input_dir f)) True)
             (\<lambda>(bind_spec, container_input_dir) w'.
                (Inr ([bind_spec], [''--input_dir='' @ container_input_dir]), w'))
      else if truthy (a_json_path f)
      then bnd (af3_create_bind h w ''json_input'' (the (a_json_path f)) False)
             (\<lambda>(bind_spec, container_json_path) w'.
                (Inr ([bind_spec], [''--json_path='' @ container_json_path]), w'))
      else (Inr ([], []), w))"

fun af3_bind_dbs ::
  "host \<Rightarrow> nat \<Rightarrow> string list \<Rightarrow> world \<Rightarrow> (string list \<times> string list) result" where
  \<comment> \<open>\<^verbatim>\<open>for i, db_path in enumerate(FLAGS.db_dir)\<close>\<close>
  "af3_bind_dbs h i [] w = (Inr ([], []), w)"
| "af3_bind_dbs h i (db_path # rest) w =
     bnd (af3_create_bind h w (''db_'' @ nat_str i) db_path True)
       (\<lambda>(bind_spec, container_db_path) w1.
     bnd (af3_bind_dbs h (Suc i) rest w1)
       (\<lambda>(binds, args) w2.
          (Inr (bind_spec # binds, (''--db_dir='' @ container_db_path) # args), w2)))"

definition af3_binds ::
  "host \<Rightarrow> af3_flags \<Rightarrow> string \<Rightarrow> string list \<Rightarrow> world
     \<Rightarrow> (string list \<times> string list) result" where
  \<comment> \<open>``Prepare Singularity Bind Mounts'': the binds and the path arguments\<close>
  "af3_binds h f model_dir db_dir w0 =
     bnd (af3_input_bind h f w0)
       (\<lambda>(binds1, args1) w1.
     bnd (af3_create_bind h w1 ''output'' (a_output_dir f) True)
       (\<lambda>(bind2, container_output_dir) w2.
     bnd (af3_create_bind h w2 ''models'' model_dir True)
       (\<lambda>(bind3, container_model_dir) w3.
     bnd (af3_bind_dbs h 0 db_dir w3)
       (\<lambda>(binds4, args4) w4.
     bnd (af3_create_bind h w4 ''tmp'' (tmp_dir h) True)
       (\<lambda>(bind5, container_tmp_dir) w5.
        (Inr (binds1 @ [bind2, bind3] @ binds4 @ [bind5],
              args1 @ [''--output_dir='' @ container_output_dir,
                       ''--model_dir='' @ container_model_dir] @ args4), w5))))))"

definition af3_option_args :: "af3_flags \<Rightarrow> string list" where
  \<comment> \<open>``Construct Command'': every flag is passed through, whatever its value\<close>
  "af3_option_args f =
     [''--run_data_pipeline='' @ bool_lower (a_run_data_pipeline f),
      ''--run_inference='' @ bool_lower (a_run_inference f),
      ''--conformer_max_iterations='' @ int_str (a_conformer_max_iterations f),
      ''--jackhmmer_n_cpu='' @ int_str (a_jackhmmer_n_cpu f),
      ''--nhmmer_n_cpu='' @ int_str (a_nhmmer_n_cpu f),
      ''--max_template_date='' @ a_max_template_date f,
      ''--num_recycles='' @ int_str (a_num_recycles f),
      ''--num_diffusion_samples='' @ int_str (a_num_diffusion_samples f),
      ''--flash_attention_implementation='' @ a_flash_attention_implementation f,
      ''--save_embeddings='' @ bool_lower (a_save_embeddings f),
      ''--force_output_dir='' @ bool_lower (a_force_output_dir f),
      ''--logtostderr'']
     @ (case a_num_seeds f of None \<Rightarrow> [] | Some n \<Rightarrow> [''--num_seeds='' @ int_str n])"

definition af3_prepare :: "host \<Rightarrow> world \<Rightarrow> string list \<Rightarrow> af3_flags \<Rightarrow> invocation result" where
  \<comment> \<open>\<^verbatim>\<open>main\<close> up to, and without, the call of \<^verbatim>\<open>Client.execute\<close>\<close>
  "af3_prepare h w argv f =
     (if length argv > 1 then (Inl (UsageError ''Too many command-line arguments.''), w)
      else if \<not> truthy (a_json_path f) \<and> \<not> truthy (a_input_dir f)
      then (Inl (UsageError ''Either --json_path or --input_dir must be specified.''), w)
      else
        let w0 = (if truthy (a_json_path f) \<and> truthy (a_input_dir f)
                  then emit (Warning ''--input_dir specified, ignoring --json_path.'') w
                  else w)
        in if \<not> truthy (a_model_dir f)
           then (Inl (UsageError ''--model_dir must be specified.''), w0)
           else
             case a_db_dir f of
               None \<Rightarrow> (Inl (UsageError ''--db_dir must be specified (can be provided multiple times).''), w0)
             | Some db_dir \<Rightarrow>
                 if db_dir = []
                 then (Inl (UsageError ''--db_dir must be specified (can be provided multiple times).''), w0)
                 else
                   bnd (af3_binds h f (the (a_model_dir f)) db_dir w0)
                     (\<lambda>(binds, command_args) w1.
                        let full_command =
                              [''python'', ''/app/run_alphafold.py'']
                              @ command_args @ af3_option_args f;
                            options =
                              [''--bind'', comma_join binds,
                               ''--env'', ''NVIDIA_VISIBLE_DEVICES='' @ a_gpu_devices f]
                        in (Inr (af3_SIF_PATH h, full_command, options, a_use_gpu f), w1)))"

definition af3_cleanup :: "host \<Rightarrow> af3_flags \<Rightarrow> world \<Rightarrow> world" where
  \<comment> \<open>the removal of an empty default output directory after a failed run\<close>
  "af3_cleanup h f w =
     (if a_output_dir f = af3_output_dir_default h \<and> path_exists h w (af3_output_dir_default h)
      then (case listdir h w (af3_output_dir_default h) of
              Inl e \<Rightarrow> emit (Warning ''Could not remove default output directory'') w
            | Inr entries \<Rightarrow>
                if entries = [] then rmdir h w (af3_output_dir_default h) else w)
      else w)"

definition af3_main :: "host \<Rightarrow> world \<Rightarrow> string list \<Rightarrow> af3_flags \<Rightarrow> unit result" where
  "af3_main h w argv f =
     bnd (af3_prepare h w argv f)
       (\<lambda>call w1.
          case client_execute h call w1 of
            (True, w2) \<Rightarrow> (Inr (), emit Finished w2)
          | (False, w2) \<Rightarrow>
              (Inl (Exit 1),
               af3_cleanup h f (emit (ErrorMsg ''Error executing Singularity command'') w2)))"

definition af3_launcher :: "host \<Rightarrow> world \<Rightarrow> string list \<Rightarrow> af3_flags \<Rightarrow> unit result" where
  \<comment> \<open>the module-level image check, which runs at import, then \<^verbatim>\<open>app.run(main)\<close>\<close>
  "af3_launcher h w argv f =
     bnd (load_image h w (af3_SIF_PATH h)
            ''Please set the ALPHAFOLD3_SIF environment variable or update the _ALPHAFOLD3_SIF_PATH in this script.'')
       (\<lambda>_ w1. af3_main h w1 argv f)"


section \<open>Concrete hosts for the examples\<close>

definition demo_host :: host where
  "demo_host =
     \<lparr> cwd = ''/home/user'', env = Map.empty, pw_dir = Map.empty, user = ''user'',
       links = [], now = ''2024-05-01_12-00-00'', cpu_count = 4,
       float_str = (\<lambda>x. ''1.5''), loadable = (\<lambda>p. True), runs = (\<lambda>c opts. True) \<rparr>"

definition demo_world :: world where
  "demo_world =
     \<lparr> nodes = [(''/data'', Dir), (''/data/protein.fasta'', File)], events = [] \<rparr>"


definition af3_demo_host :: host where
  "af3_demo_host = demo_host\<lparr>env := [''ALPHAFOLD3_SIF'' \<mapsto> ''/images/af3.sif'']\<rparr>"

definition af3_demo_world :: world where
  "af3_demo_world =
     \<lparr> nodes = [(''/images'', Dir), (''/images/af3.sif'', File),
                (''/data'', Dir), (''/data/fold.json'', File)],
       events = [] \<rparr>"

definition af3_demo_flags :: af3_flags where
  \<comment> \<open>neither \<^verbatim>\<open>/models\<close> nor \<^verbatim>\<open>/db\<close> exists in \<open>af3_demo_world\<close>\<close>
  "af3_demo_flags =
     (af3_defaults af3_demo_host)
       \<lparr>a_json_path := Some ''/data/fold.json'', a_model_dir := Some ''/models'',
        a_db_dir := Some [''/db'']\<rparr>"



section \<open>Notions the properties are stated with\<close>

definition exit_status :: "unit result \<Rightarrow> nat" where
  \<comment> \<open>the exit code of the process: 0 when \<^verbatim>\<open>main\<close> returns\<close>
  "exit_status r = (case fst r of Inl out \<Rightarrow> exit_code out | Inr _ \<Rightarrow> 0)"




definition lexically_normal :: "string \<Rightarrow> bool" where
  \<comment> \<open>absolute, at most two leading slashes, and no empty, \<^verbatim>\<open>.\<close> or \<^verbatim>\<open>..\<close> component\<close>
  "lexically_normal p =
     (prefix ''/'' p \<and> \<not> prefix ''///'' p
      \<and> (let rest = dropWhile (\<lambda>c. c = CHR ''/'') p
         in rest = [] \<or> list_all (\<lambda>c. c \<noteq> [] \<and> c \<noteq> ''.'' \<and> c \<noteq> ''..'') (split_sep rest)))"

definition symlink_free :: "host \<Rightarrow> string \<Rightarrow> bool" where
  \<comment> \<open>symlink-expanded: neither the path nor one of its ancestors is a symbolic link\<close>
  "symlink_free h p = list_all (\<lambda>a. map_of (links h) a = None) (ancestors p @ [p])"

definition good_part :: "string \<Rightarrow> bool" where
  "good_part c = (c \<noteq> [] \<and> c \<noteq> ''.'' \<and> c \<noteq> ''..'' \<and> CHR ''/'' \<notin> set c)"

definition link_host :: host where
  "link_host = demo_host\<lparr>links := [(''/data'', ''/real'')]\<rparr>"

definition link_world :: world where
  "link_world = \<lparr> nodes = [(''/data'', Dir), (''/real'', Dir)], events = [] \<rparr>"


definition run_host :: host where
  "run_host =
     demo_host\<lparr>env := [''HOME'' \<mapsto> ''/home/user'', ''BOLTZ_SIF'' \<mapsto> ''/images/boltz.sif'',
                      ''CHAI_SIF'' \<mapsto> ''/images/chai.sif'']\<rparr>"

definition run_world :: world where
  "run_world =
     \<lparr> nodes = [(''/images'', Dir), (''/images/boltz.sif'', File), (''/images/chai.sif'', File),
                (''/data'', Dir), (''/data/protein.fasta'', File)],
       events = [] \<rparr>"

definition boltz_run_flags :: boltz_flags where
  "boltz_run_flags =
     (boltz_defaults run_host)
       \<lparr>b_input_data := Some ''/data/protein.fasta'', b_devices := 2,
        b_msa_server_url := ''http://localhost:8080'', b_msa_pairing_strategy := ''complete''\<rparr>"

definition chai_plain_flags :: chai_flags where
  "chai_plain_flags = (chai_defaults run_host)\<lparr>c_fasta_file := Some ''/data/protein.fasta''\<rparr>"

definition chai_run_flags :: chai_flags where
  "chai_run_flags =
     (chai_defaults run_host)
       \<lparr>c_fasta_file := Some ''/data/protein.fasta'',
        c_msa_server_url := ''http://localhost:8080'', c_num_trunk_recycles := 4\<rparr>"


section \<open>Facts about paths and the directory tree\<close>

lemmas path_defs = abspath_def normpath_def path_join_def norm_step_def dirname_def basename_def
  rstrip_sep_def fs_key_def stat_def path_exists_def path_isdir_def path_isfile_def
  ancestors_def mk_dir_def makedirs_def listdir_def expanduser_def emit_def

lemmas demo_defs = demo_host_def demo_world_def boltz_ROOT_MOUNT_DIRECTORY_def
  chai_ROOT_MOUNT_DIRECTORY_def af3_ROOT_MOUNT_DIRECTORY_def

lemma basename_no_sep: "CHR ''/'' \<notin> set (basename p)"
  unfolding basename_def
  by (metis (mono_tags, lifting) set_rev set_takeWhileD)

lemma basename_not_abs: "\<not> prefix ''/'' (basename p)"
  using basename_no_sep [of p] by (cases "basename p") auto

lemma path_join_prefix: "\<not> prefix ''/'' b \<Longrightarrow> prefix a (path_join a b)"
  by (simp add: path_join_def)

lemma path_join_basename_prefix: "prefix a (path_join a (basename p))"
  by (rule path_join_prefix) (rule basename_not_abs)

lemma boltz_root_join:
  "\<not> prefix ''/'' name \<Longrightarrow>
   path_join boltz_ROOT_MOUNT_DIRECTORY name = boltz_ROOT_MOUNT_DIRECTORY @ name"
  by (simp add: path_join_def boltz_ROOT_MOUNT_DIRECTORY_def)

lemma chai_root_join:
  "\<not> prefix ''/'' name \<Longrightarrow>
   path_join chai_ROOT_MOUNT_DIRECTORY name = chai_ROOT_MOUNT_DIRECTORY @ name"
  by (simp add: path_join_def chai_ROOT_MOUNT_DIRECTORY_def)

lemma af3_root_join:
  "\<not> prefix ''/'' name \<Longrightarrow>
   path_join af3_ROOT_MOUNT_DIRECTORY name = af3_ROOT_MOUNT_DIRECTORY @ name"
  by (simp add: path_join_def af3_ROOT_MOUNT_DIRECTORY_def)

lemma stat_mk_dir:
  "stat (mk_dir ns a) b = (if b = a \<and> stat ns a = None then Some Dir else stat ns b)"
  by (auto simp: mk_dir_def stat_def)

lemma stat_foldl_mk_dir:
  "stat (foldl mk_dir ns as) b =
     (if b \<in> set as \<and> stat ns b = None then Some Dir else stat ns b)"
proof (induction as arbitrary: ns)
  case Nil
  then show ?case by simp
next
  case (Cons a as)
  show ?case by (auto simp: Cons.IH stat_mk_dir)
qed

lemma foldl_mk_dir_present:
  "\<forall>a \<in> set as. stat ns a \<noteq> None \<Longrightarrow> foldl mk_dir ns as = ns"
  by (induction as arbitrary: ns) (auto simp: mk_dir_def)

text \<open>A second \<^verbatim>\<open>os.makedirs\<close> of the same path finds every directory in place.\<close>

lemma makedirs_again:
  assumes "makedirs h w p = Inr w1" and "nodes w2 = nodes w1"
  shows "makedirs h w2 p = Inr w2"
proof -
  let ?q = "fs_key h p"
  let ?as = "ancestors ?q @ [?q]"
  from assms(1) have p: "p \<noteq> []"
    and nf: "\<forall>a \<in> set ?as. stat (nodes w) a \<noteq> Some File"
    and w1: "nodes w1 = foldl mk_dir (nodes w) ?as"
    by (auto simp: makedirs_def Let_def split: if_splits)
  have dir: "\<forall>a \<in> set ?as. stat (nodes w1) a = Some Dir"
  proof
    fix a assume a: "a \<in> set ?as"
    with nf have "stat (nodes w) a \<noteq> Some File" by blast
    then show "stat (nodes w1) a = Some Dir"
      using a unfolding w1 stat_foldl_mk_dir
      by (cases "stat (nodes w) a") (auto intro: node.exhaust)
  qed
  then have same: "foldl mk_dir (nodes w1) ?as = nodes w1"
    by (intro foldl_mk_dir_present) simp
  show ?thesis
    using p dir same assms(2) by (auto simp: makedirs_def Let_def)
qed

lemma nodes_emit [simp]: "nodes (emit e w) = nodes w"
  by (simp add: emit_def)

lemma path_exists_emit [simp]: "path_exists h (emit e w) p = path_exists h w p"
  by (simp add: path_exists_def)

lemma makedirs_emit_again:
  "makedirs h w p = Inr w1 \<Longrightarrow> makedirs h (emit e w1) p = Inr (emit e w1)"
  by (rule makedirs_again) simp_all

lemma create_bind_again:
  "(boltz_create_bind h w name hp is_dir ro = (r, w1) \<longrightarrow>
      fst (boltz_create_bind h w1 name hp is_dir ro) = r
      \<and> nodes (snd (boltz_create_bind h w1 name hp is_dir ro)) = nodes w1)
   \<and> (chai_create_bind h w name hp is_dir = (r, w1) \<longrightarrow>
      fst (chai_create_bind h w1 name hp is_dir) = r
      \<and> nodes (snd (chai_create_bind h w1 name hp is_dir)) = nodes w1)
   \<and> (af3_create_bind h w name hp is_dir = (r, w1) \<longrightarrow>
      fst (af3_create_bind h w1 name hp is_dir) = r
      \<and> nodes (snd (af3_create_bind h w1 name hp is_dir)) = nodes w1)"
proof (intro conjI impI)
  assume a: "boltz_create_bind h w name hp is_dir ro = (r, w1)"
  show "fst (boltz_create_bind h w1 name hp is_dir ro) = r"
    using a unfolding boltz_create_bind_def Let_def
    by (auto split: if_splits sum.splits simp: makedirs_emit_again)
  show "nodes (snd (boltz_create_bind h w1 name hp is_dir ro)) = nodes w1"
    using a unfolding boltz_create_bind_def Let_def
    by (auto split: if_splits sum.splits simp: makedirs_emit_again)
next
  assume a: "chai_create_bind h w name hp is_dir = (r, w1)"
  show "fst (chai_create_bind h w1 name hp is_dir) = r"
    using a unfolding chai_create_bind_def Let_def
    by (auto split: if_splits sum.splits simp: makedirs_emit_again)
  show "nodes (snd (chai_create_bind h w1 name hp is_dir)) = nodes w1"
    using a unfolding chai_create_bind_def Let_def
    by (auto split: if_splits sum.splits simp: makedirs_emit_again)
next
  assume a: "af3_create_bind h w name hp is_dir = (r, w1)"
  show "fst (af3_create_bind h w1 name hp is_dir) = r"
    using a unfolding af3_create_bind_def Let_def
    by (auto split: if_splits sum.splits simp: makedirs_emit_again)
  show "nodes (snd (af3_create_bind h w1 name hp is_dir)) = nodes w1"
    using a unfolding af3_create_bind_def Let_def
    by (auto split: if_splits sum.splits simp: makedirs_emit_again)
qed

lemma demo_boltz_file:
  "boltz_create_bind demo_host demo_world ''input_data'' ''/data/protein.fasta'' False True
   = (Inr (''/data:/mnt_launcher/input_data:ro'', ''/mnt_launcher/input_data/protein.fasta''),
      emit (Binding ''/data'' ''/mnt_launcher/input_data'') demo_world)"
  by (simp add: boltz_create_bind_def demo_defs path_defs Let_def)

lemma demo_chai_file:
  "chai_create_bind demo_host demo_world ''fasta'' ''/data/protein.fasta'' False
   = (Inr (''/data:/mnt/fasta'', ''/mnt/fasta/protein.fasta''),
      emit (Binding ''/data'' ''/mnt/fasta'') demo_world)"
  by (simp add: chai_create_bind_def demo_defs path_defs Let_def)

lemma demo_af3_file:
  "af3_create_bind demo_host demo_world ''json_input'' ''/data/protein.fasta'' False
   = (Inr (''/data:/mnt/json_input'', ''/mnt/json_input/protein.fasta''),
      emit (Binding ''/data'' ''/mnt/json_input'') demo_world)"
  by (simp add: af3_create_bind_def demo_defs path_defs Let_def)


lemma bnd_Inl [simp]: "bnd (Inl e, w) k = (Inl e, w)"
  by (simp add: bnd_def)

lemma bnd_Inr [simp]: "bnd (Inr x, w) k = k x w"
  by (simp add: bnd_def)

lemma listdir_emit [simp]: "listdir h (emit e w) p = listdir h w p"
  unfolding listdir_def nodes_emit ..






lemmas run_defs = bnd_def raising_def opt_arg_def tmp_dir_def load_image_def truthy_def
  client_execute_def int_str_def bool_lower_def exit_code_def

lemmas af3_defs = af3_launcher_def af3_main_def af3_prepare_def af3_binds_def
  af3_input_bind_def af3_option_args_def af3_create_bind_def af3_SIF_PATH_def
  af3_defaults_def af3_output_dir_default_def af3_ROOT_MOUNT_DIRECTORY_def

lemma af3_demo_run:
  "af3_launcher af3_demo_host af3_demo_world [''launcher''] af3_demo_flags =
   (Inr (),
  \<lparr>nodes =
     [(''/tmp'', Dir), (''/home/user/alphafold3_output'', Dir),
      (''/home/user'', Dir), (''/home'', Dir), (''/images'', Dir),
      (''/images/af3.sif'', File), (''/data'', Dir),
      (''/data/fold.json'', File)],
     events =
       [ImageLoaded ''/images/af3.sif'',
        Binding ''/data'' ''/mnt/json_input'',
        Binding ''/home/user/alphafold3_output'' ''/mnt/output'',
        Binding ''/models'' ''/mnt/models'', Binding ''/db'' ''/mnt/db_0'',
        Binding ''/tmp'' ''/mnt/tmp'',
        Executed ''/images/af3.sif''
         [''python'', ''/app/run_alphafold.py'',
          ''--json_path=/mnt/json_input/fold.json'',
          ''--output_dir=/mnt/output'', ''--model_dir=/mnt/models'',
          ''--db_dir=/mnt/db_0'', ''--run_data_pipeline=true'',
          ''--run_inference=true'', ''--conformer_max_iterations=10000'',
          ''--jackhmmer_n_cpu=4'', ''--nhmmer_n_cpu=4'',
          ''--max_template_date=2021-09-30'', ''--num_recycles=10'',
          ''--num_diffusion_samples=5'',
          ''--flash_attention_implementation=triton'',
          ''--save_embeddings=false'', ''--force_output_dir=false'',
          ''--logtostderr'']
         [''--bind'',
          ''/data:/mnt/json_input,/home/user/alphafold3_output:/mnt/output,/models:/mnt/models,/db:/mnt/db_0,/tmp:/mnt/tmp'',
          ''--env'', ''NVIDIA_VISIBLE_DEVICES=all'']
         True,
        Finished]\<rparr>)"
  by (simp add: af3_demo_host_def af3_demo_world_def af3_demo_flags_def demo_host_def
        af3_defs run_defs path_defs Let_def)


lemmas boltz_defs = boltz_main_def boltz_prepare_def boltz_binds_def boltz_checkpoint_bind_def
  boltz_option_args_def boltz_create_bind_def boltz_SIF_PATH_def boltz_CACHE_DEFAULT_def
  boltz_defaults_def boltz_ROOT_MOUNT_DIRECTORY_def

lemmas chai_defs = chai_main_def chai_prepare_def chai_binds_def chai_optional_bind_def
  chai_option_args_def chai_create_bind_def chai_SIF_PATH_def chai_actual_output_dir_def
  chai_defaults_def chai_ROOT_MOUNT_DIRECTORY_def


lemma sibling_create_bind_missing_source_exits:
  "(\<not> (prefix ''output'' name \<or> name = ''tmp'' \<or> name = ''boltz_cache'')
      \<and> \<not> path_exists h w
           (if is_dir then abspath (cwd h) (expanduser h hp)
            else dirname (abspath (cwd h) (expanduser h hp))) \<longrightarrow>
      fst (boltz_create_bind h w name hp is_dir ro) = Inl (Exit 1)
      \<and> nodes (snd (boltz_create_bind h w name hp is_dir ro)) = nodes w)
   \<and> (\<not> (prefix ''output'' name \<or> name = ''tmp'')
      \<and> \<not> path_exists h w
           (if is_dir then abspath (cwd h) hp else dirname (abspath (cwd h) hp)) \<longrightarrow>
      fst (chai_create_bind h w name hp is_dir) = Inl (Exit 1)
      \<and> nodes (snd (chai_create_bind h w name hp is_dir)) = nodes w)"
  by (simp add: boltz_create_bind_def chai_create_bind_def Let_def)


lemma split_sep_nonempty [simp]: "split_sep s \<noteq> []"
  by (induction s) (auto split: list.splits)

lemma split_sep_no_sep: "c \<in> set (split_sep s) \<Longrightarrow> CHR ''/'' \<notin> set c"
  by (induction s arbitrary: c) (auto split: list.splits if_splits)

lemma split_sep_plain: "CHR ''/'' \<notin> set w \<Longrightarrow> split_sep w = [w]"
  by (induction w) auto

lemma split_sep_append:
  "CHR ''/'' \<notin> set w \<Longrightarrow> split_sep (w @ CHR ''/'' # rest) = w # split_sep rest"
  by (induction w) (auto split: list.splits)

lemma split_join:
  "comps \<noteq> [] \<Longrightarrow> \<forall>c \<in> set comps. CHR ''/'' \<notin> set c \<Longrightarrow> split_sep (join_sep comps) = comps"
  by (induction comps) (auto simp: split_sep_plain split_sep_append)

lemma norm_step_good:
  assumes k: "0 < k" and acc: "\<forall>c \<in> set acc. good_part c" and part: "CHR ''/'' \<notin> set part"
  shows "\<forall>c \<in> set (norm_step k acc part). good_part c"
proof (cases "part = [] \<or> part = ''.''")
  case True
  then have "norm_step k acc part = acc"
    unfolding norm_step_def by (rule if_P)
  with acc show ?thesis by simp
next
  case False
  note not_skip = this
  show ?thesis
  proof (cases "part = ''..''")
    case False
    then have "part \<noteq> ''..'' \<or> (k = 0 \<and> acc = []) \<or> (acc \<noteq> [] \<and> last acc = ''..'')"
      by blast
    then have "norm_step k acc part = acc @ [part]"
      unfolding norm_step_def using not_skip by (simp only: if_True if_False simp_thms)
    moreover have "good_part part"
      using not_skip False part unfolding good_part_def by blast
    ultimately show ?thesis using acc by simp
  next
    case True
    have last_ok: "acc \<noteq> [] \<Longrightarrow> last acc \<noteq> ''..''"
      using acc last_in_set [of acc] unfolding good_part_def by blast
    have "\<not> (part \<noteq> ''..'' \<or> (k = 0 \<and> acc = []) \<or> (acc \<noteq> [] \<and> last acc = ''..''))"
      using True k last_ok by blast
    then have "norm_step k acc part = (if acc \<noteq> [] then butlast acc else acc)"
      unfolding norm_step_def using not_skip by (simp only: if_True if_False simp_thms)
    then show ?thesis using acc by (auto dest: in_set_butlastD)
  qed
qed

lemma foldl_norm_step_good:
  "0 < k \<Longrightarrow> \<forall>c \<in> set acc. good_part c \<Longrightarrow> \<forall>p \<in> set parts. CHR ''/'' \<notin> set p \<Longrightarrow>
   \<forall>c \<in> set (foldl (norm_step k) acc parts). good_part c"
proof (induction parts arbitrary: acc)
  case Nil
  then show ?case by simp
next
  case (Cons p parts)
  have "\<forall>c \<in> set (norm_step k acc p). good_part c"
    using Cons.prems by (intro norm_step_good) auto
  with Cons show ?case by simp
qed

lemma join_sep_good_hd:
  assumes "comps \<noteq> []" and "\<forall>c \<in> set comps. good_part c"
  shows "join_sep comps \<noteq> [] \<and> hd (join_sep comps) \<noteq> CHR ''/''"
proof -
  from assms(1) obtain c cs where comps: "comps = c # cs" by (cases comps) auto
  with assms(2) have "c \<noteq> []" and "CHR ''/'' \<notin> set c"
    by (simp_all add: good_part_def)
  then obtain x xs where c: "c = x # xs" and x: "x \<noteq> CHR ''/''"
    by (cases c) auto
  show ?thesis
    unfolding comps c using x by simp
qed

lemma replicate_slashes:
  "k = 1 \<or> k = (2::nat) \<Longrightarrow> replicate k CHR ''/'' = ''/'' \<or> replicate k CHR ''/'' = ''//''"
  by (auto simp: numeral_2_eq_2)

lemma slashes_then_good:
  assumes "k = 1 \<or> k = (2::nat)" and "\<forall>c \<in> set comps. good_part c"
  shows "lexically_normal (replicate k CHR ''/'' @ join_sep comps)"
proof (cases "comps = []")
  case True
  then have "join_sep comps = []" by simp
  with replicate_slashes [OF assms(1)] show ?thesis
    unfolding lexically_normal_def Let_def by auto
next
  case False
  from join_sep_good_hd [OF False assms(2)] obtain x xs where
    j: "join_sep comps = x # xs" and x: "x \<noteq> CHR ''/''"
    by (cases "join_sep comps") auto
  have sp: "split_sep (x # xs) = comps"
    using split_join [of comps] False assms(2) unfolding j [symmetric] good_part_def by blast
  have all: "list_all (\<lambda>c. c \<noteq> [] \<and> c \<noteq> ''.'' \<and> c \<noteq> ''..'') comps"
    using assms(2) unfolding list_all_iff good_part_def by blast
  from replicate_slashes [OF assms(1)] show ?thesis
  proof
    assume r: "replicate k CHR ''/'' = ''/''"
    show ?thesis
      unfolding lexically_normal_def Let_def r j using x all sp by simp
  next
    assume r: "replicate k CHR ''/'' = ''//''"
    show ?thesis
      unfolding lexically_normal_def Let_def r j using x all sp by simp
  qed
qed

lemma normpath_abs_normal:
  assumes "prefix ''/'' x"
  shows "lexically_normal (normpath x)"
proof -
  define k :: nat where "k = (if prefix ''//'' x \<and> \<not> prefix ''///'' x then 2 else 1)"
  define comps where "comps = foldl (norm_step k) [] (split_sep x)"
  have k: "k = 1 \<or> k = 2" by (simp add: k_def)
  then have kpos: "0 < k" by auto
  have good: "\<forall>c \<in> set comps. good_part c"
    unfolding comps_def
  proof (rule foldl_norm_step_good [OF kpos])
    show "\<forall>c \<in> set []. good_part c" by simp
    show "\<forall>p \<in> set (split_sep x). CHR ''/'' \<notin> set p"
      using split_sep_no_sep by blast
  qed
  from assms have ne: "x \<noteq> []" by auto
  from replicate_slashes [OF k] have "replicate k CHR ''/'' @ join_sep comps \<noteq> []"
    by auto
  then have "normpath x = replicate k CHR ''/'' @ join_sep comps"
    unfolding normpath_def Let_def k_def comps_def using assms ne
    by (simp only: if_True if_False simp_thms)
  with slashes_then_good [OF k good] show ?thesis by simp
qed

lemma abspath_normal:
  assumes "prefix ''/'' cwd0"
  shows "lexically_normal (abspath cwd0 p)"
proof -
  from assms obtain rest where "cwd0 = CHR ''/'' # rest"
    by (cases cwd0) auto
  then have "prefix ''/'' (if prefix ''/'' p then p else path_join cwd0 p)"
    unfolding path_join_def by simp
  then show ?thesis
    unfolding abspath_def by (rule normpath_abs_normal)
qed


lemma bnd_eq_Inr:
  "bnd r k = (Inr y, w') \<longleftrightarrow> (\<exists>x w1. r = (Inr x, w1) \<and> k x w1 = (Inr y, w'))"
  by (cases r rule: prod.exhaust) (auto simp: bnd_def split: sum.splits)

lemma fst_eq_Inr: "fst r = Inr y \<longleftrightarrow> (\<exists>w'. r = (Inr y, w'))"
  by (cases r) auto

lemma path_join_abs: "prefix ''/'' a \<Longrightarrow> prefix ''/'' (path_join a b)"
  by (cases a) (auto simp: path_join_def)

lemma boltz_cpath_abs:
  "boltz_create_bind h w name hp is_dir ro = (Inr (spec, cpath), w') \<Longrightarrow> prefix ''/'' cpath"
  unfolding boltz_create_bind_def Let_def
  by (auto split: if_splits sum.splits
        intro!: path_join_abs simp: boltz_ROOT_MOUNT_DIRECTORY_def)

lemma chai_cpath_abs:
  "chai_create_bind h w name hp is_dir = (Inr (spec, cpath), w') \<Longrightarrow> prefix ''/'' cpath"
  unfolding chai_create_bind_def Let_def
  by (auto split: if_splits sum.splits
        intro!: path_join_abs simp: chai_ROOT_MOUNT_DIRECTORY_def)

lemma boltz_checkpoint_shape:
  "boltz_checkpoint_bind h f w = (Inr (binds, args), w') \<Longrightarrow>
     args = [] \<or> (\<exists>z. args = [''--checkpoint='' @ z])"
  unfolding boltz_checkpoint_bind_def
  by (auto simp: bnd_eq_Inr split: option.splits if_splits)

lemma boltz_binds_shape:
  assumes "boltz_binds h f input_data w = (Inr (binds, args, cid, cache, tmp), w')"
  shows "prefix ''/'' cid
         \<and> (\<exists>x y cs. args = [''--out_dir='' @ x, ''--cache='' @ y] @ cs
               \<and> (cs = [] \<or> (\<exists>z. cs = [''--checkpoint='' @ z])))"
  using assms unfolding boltz_binds_def
  by (auto simp: bnd_eq_Inr dest: boltz_cpath_abs boltz_checkpoint_shape)

lemma boltz_prepare_shape:
  assumes "fst (boltz_prepare h w argv f) = Inr (img, cmd, opts, nv)"
  shows "\<exists>cid x y cs.
           cmd = [''boltz'', ''predict'', cid, ''--out_dir='' @ x, ''--cache='' @ y] @ cs
                 @ boltz_option_args h f
           \<and> prefix ''/'' cid \<and> (cs = [] \<or> (\<exists>z. cs = [''--checkpoint='' @ z]))"
proof -
  from assms obtain w' where "boltz_prepare h w argv f = (Inr (img, cmd, opts, nv), w')"
    by (auto simp: fst_eq_Inr)
  then obtain input_data w1 binds args cid cache tmp w2 where
    b: "boltz_binds h f input_data w1 = (Inr (binds, args, cid, cache, tmp), w2)"
    and c: "cmd = [''boltz'', ''predict'', cid] @ args @ boltz_option_args h f"
    unfolding boltz_prepare_def Let_def
    by (auto simp: bnd_eq_Inr split: if_splits option.splits)
  from boltz_binds_shape [OF b] c show ?thesis by auto
qed

lemma count_list_opt_arg [simp]:
  "count_list (opt_arg c t) x = (if c \<and> t = x then 1 else 0)"
  by (simp add: opt_arg_def)

lemma filter_opt_arg [simp]:
  "filter P (opt_arg c t) = (if c \<and> P t then [t] else [])"
  by (simp add: opt_arg_def)

lemma abs_not_dash: "prefix ''/'' cid \<Longrightarrow> cid \<noteq> CHR ''-'' # rest"
  by auto

lemma boltz_bool_tokens:
  assumes "fst (boltz_prepare h w argv f) = Inr (img, cmd, opts, nv)"
  shows "count_list cmd ''--write_full_pae'' = (if b_write_full_pae f then 1 else 0)"
    and "count_list cmd ''--no-write-full-pae'' = (if b_write_full_pae f then 0 else 1)"
    and "count_list cmd ''--write_full_pde'' = (if b_write_full_pde f then 1 else 0)"
    and "count_list cmd ''--no-write-full-pde'' = (if b_write_full_pde f then 0 else 1)"
    and "count_list cmd ''--override'' = (if b_override f then 1 else 0)"
    and "count_list cmd ''--no-override'' = (if b_override f then 0 else 1)"
    and "count_list cmd ''--use_msa_server'' = (if b_use_msa_server f then 1 else 0)"
    and "count_list cmd ''--no-use-msa-server'' = (if b_use_msa_server f then 0 else 1)"
    and "count_list cmd ''--potentials'' = (if b_enable_potentials f then 1 else 0)"
    and "count_list cmd ''--no_potentials'' = (if b_enable_potentials f then 0 else 1)"
proof -
  from boltz_prepare_shape [OF assms] obtain cid x y cs where
    cmd: "cmd = [''boltz'', ''predict'', cid, ''--out_dir='' @ x, ''--cache='' @ y] @ cs
                 @ boltz_option_args h f"
    and cid: "prefix ''/'' cid" and cs: "cs = [] \<or> (\<exists>z. cs = [''--checkpoint='' @ z])"
    by blast
  from cid obtain rest where c: "cid = CHR ''/'' # rest" by (cases cid) auto
  show "count_list cmd ''--write_full_pae'' = (if b_write_full_pae f then 1 else 0)"
    using cs unfolding cmd c boltz_option_args_def by (auto split: option.splits)
  show "count_list cmd ''--no-write-full-pae'' = (if b_write_full_pae f then 0 else 1)"
    using cs unfolding cmd c boltz_option_args_def by (auto split: option.splits)
  show "count_list cmd ''--write_full_pde'' = (if b_write_full_pde f then 1 else 0)"
    using cs unfolding cmd c boltz_option_args_def by (auto split: option.splits)
  show "count_list cmd ''--no-write-full-pde'' = (if b_write_full_pde f then 0 else 1)"
    using cs unfolding cmd c boltz_option_args_def by (auto split: option.splits)
  show "count_list cmd ''--override'' = (if b_override f then 1 else 0)"
    using cs unfolding cmd c boltz_option_args_def by (auto split: option.splits)
  show "count_list cmd ''--no-override'' = (if b_override f then 0 else 1)"
    using cs unfolding cmd c boltz_option_args_def by (auto split: option.splits)
  show "count_list cmd ''--use_msa_server'' = (if b_use_msa_server f then 1 else 0)"
    using cs unfolding cmd c boltz_option_args_def by (auto split: option.splits)
  show "count_list cmd ''--no-use-msa-server'' = (if b_use_msa_server f then 0 else 1)"
    using cs unfolding cmd c boltz_option_args_def by (auto split: option.splits)
  show "count_list cmd ''--potentials'' = (if b_enable_potentials f then 1 else 0)"
    using cs unfolding cmd c boltz_option_args_def by (auto split: option.splits)
  show "count_list cmd ''--no_potentials'' = (if b_enable_potentials f then 0 else 1)"
    using cs unfolding cmd c boltz_option_args_def by (auto split: option.splits)
qed

lemma af3_cpath_abs:
  "af3_create_bind h w name hp is_dir = (Inr (spec, cpath), w') \<Longrightarrow> prefix ''/'' cpath"
  unfolding af3_create_bind_def Let_def
  by (auto split: if_splits sum.splits
        intro!: path_join_abs simp: af3_ROOT_MOUNT_DIRECTORY_def)

lemma chai_optional_shape:
  "chai_optional_bind h flag name is_dir opt w = (Inr (binds, args), w') \<Longrightarrow>
     args = [] \<or> (\<exists>z. args = [opt @ z])"
  unfolding chai_optional_bind_def
  by (auto simp: bnd_eq_Inr split: option.splits if_splits)

lemma chai_binds_shape:
  assumes "chai_binds h f fasta w = (Inr (binds, args, cf, co, tmp), w')"
  shows "prefix ''/'' cf \<and> prefix ''/'' co
         \<and> (\<exists>a3 a4 a5. args = a3 @ a4 @ a5
               \<and> (a3 = [] \<or> (\<exists>z. a3 = [''--msa-directory='' @ z]))
               \<and> (a4 = [] \<or> (\<exists>z. a4 = [''--constraint-path='' @ z]))
               \<and> (a5 = [] \<or> (\<exists>z. a5 = [''--template-hits-path='' @ z])))"
proof -
  from assms obtain b1 w1 d w2 u w3 b2 w4 b3 a3 w5 b4 a4 w6 b5 a5 w7 b6 w8 where
    s1: "chai_create_bind h w ''fasta'' fasta False = (Inr (b1, cf), w1)"
    and s4: "chai_create_bind h w3 ''output'' d True = (Inr (b2, co), w4)"
    and s5: "chai_optional_bind h (c_msa_directory f) ''msa_dir'' True ''--msa-directory='' w4
               = (Inr (b3, a3), w5)"
    and s6: "chai_optional_bind h (c_constraint_path f) ''constraints'' False
               ''--constraint-path='' w5 = (Inr (b4, a4), w6)"
    and s7: "chai_optional_bind h (c_template_hits_path f) ''template_hits'' False
               ''--template-hits-path='' w6 = (Inr (b5, a5), w7)"
    and args: "args = a3 @ a4 @ a5"
    unfolding chai_binds_def by (auto simp: bnd_eq_Inr)
  from chai_cpath_abs [OF s1] chai_cpath_abs [OF s4]
    chai_optional_shape [OF s5] chai_optional_shape [OF s6] chai_optional_shape [OF s7] args
  show ?thesis by blast
qed

lemma chai_prepare_shape:
  assumes "fst (chai_prepare h w argv f) = Inr (img, cmd, opts, nv)"
  shows "\<exists>cf co a3 a4 a5.
           cmd = [''chai-lab'', ''fold'', cf, co] @ a3 @ a4 @ a5 @ chai_option_args f
           \<and> prefix ''/'' cf \<and> prefix ''/'' co
           \<and> (a3 = [] \<or> (\<exists>z. a3 = [''--msa-directory='' @ z]))
           \<and> (a4 = [] \<or> (\<exists>z. a4 = [''--constraint-path='' @ z]))
           \<and> (a5 = [] \<or> (\<exists>z. a5 = [''--template-hits-path='' @ z]))"
proof -
  from assms obtain w' where "chai_prepare h w argv f = (Inr (img, cmd, opts, nv), w')"
    by (auto simp: fst_eq_Inr)
  then obtain fasta w1 binds args cf co tmp w2 where
    b: "chai_binds h f fasta w1 = (Inr (binds, args, cf, co, tmp), w2)"
    and c: "cmd = [''chai-lab'', ''fold'', cf, co] @ args @ chai_option_args f"
    unfolding chai_prepare_def Let_def
    by (auto simp: bnd_eq_Inr split: if_splits option.splits)
  from chai_binds_shape [OF b] c show ?thesis by auto
qed

lemma af3_input_shape:
  "af3_input_bind h f w = (Inr (binds, args), w') \<Longrightarrow>
     args = [] \<or> (\<exists>z. args = [''--input_dir='' @ z]) \<or> (\<exists>z. args = [''--json_path='' @ z])"
  unfolding af3_input_bind_def
  by (auto simp: bnd_eq_Inr split: if_splits)

lemma af3_dbs_shape:
  "af3_bind_dbs h i dbs w = (Inr (binds, args), w') \<Longrightarrow>
     \<forall>a \<in> set args. prefix ''--db_dir='' a"
proof (induction dbs arbitrary: i w binds args w')
  case Nil
  then show ?case by simp
next
  case (Cons db rest)
  from Cons.prems obtain b c w1 bs as w2 where
    r: "af3_bind_dbs h (Suc i) rest w1 = (Inr (bs, as), w2)"
    and a: "args = (''--db_dir='' @ c) # as"
    by (auto simp: bnd_eq_Inr)
  from Cons.IH [OF r] a show ?case by simp
qed

lemma af3_binds_shape:
  assumes "af3_binds h f model_dir db_dir w = (Inr (binds, args), w')"
  shows "\<exists>a1 x y a4. args = a1 @ [''--output_dir='' @ x, ''--model_dir='' @ y] @ a4
           \<and> (a1 = [] \<or> (\<exists>z. a1 = [''--input_dir='' @ z]) \<or> (\<exists>z. a1 = [''--json_path='' @ z]))
           \<and> (\<forall>a \<in> set a4. prefix ''--db_dir='' a)"
proof -
  from assms obtain b1 a1 w1 b2 x w2 b3 y w3 b4 a4 w4 where
    s1: "af3_input_bind h f w = (Inr (b1, a1), w1)"
    and s4: "af3_bind_dbs h 0 db_dir w3 = (Inr (b4, a4), w4)"
    and args: "args = a1 @ [''--output_dir='' @ x, ''--model_dir='' @ y] @ a4"
    unfolding af3_binds_def by (auto simp: bnd_eq_Inr)
  from af3_input_shape [OF s1] af3_dbs_shape [OF s4] args show ?thesis by blast
qed

lemma af3_prepare_shape:
  assumes "fst (af3_prepare h w argv f) = Inr (img, cmd, opts, nv)"
  shows "\<exists>a1 x y a4.
           cmd = [''python'', ''/app/run_alphafold.py''] @ a1
                 @ [''--output_dir='' @ x, ''--model_dir='' @ y] @ a4 @ af3_option_args f
           \<and> (a1 = [] \<or> (\<exists>z. a1 = [''--input_dir='' @ z]) \<or> (\<exists>z. a1 = [''--json_path='' @ z]))
           \<and> (\<forall>a \<in> set a4. prefix ''--db_dir='' a)"
proof -
  from assms obtain w' where "af3_prepare h w argv f = (Inr (img, cmd, opts, nv), w')"
    by (auto simp: fst_eq_Inr)
  then obtain model_dir db_dir w1 binds args w2 where
    b: "af3_binds h f model_dir db_dir w1 = (Inr (binds, args), w2)"
    and c: "cmd = [''python'', ''/app/run_alphafold.py''] @ args @ af3_option_args f"
    unfolding af3_prepare_def Let_def
    by (auto simp: bnd_eq_Inr split: if_splits option.splits)
  from af3_binds_shape [OF b] c show ?thesis by auto
qed

lemma count_prefix_none:
  "\<forall>a \<in> set xs. prefix q a \<Longrightarrow> \<not> prefix q t \<Longrightarrow> count_list xs t = 0"
  by (induction xs) auto

lemma filter_prefix_none:
  "\<forall>a \<in> set xs. prefix q a \<Longrightarrow> \<not> prefix p q \<Longrightarrow> \<not> prefix q p \<Longrightarrow>
   filter (prefix p) xs = []"
proof -
  assume all: "\<forall>a \<in> set xs. prefix q a" and pq: "\<not> prefix p q" and qp: "\<not> prefix q p"
  have "\<not> prefix p a" if "a \<in> set xs" for a
  proof
    assume "prefix p a"
    moreover from all that have "prefix q a" by blast
    ultimately have "prefix p q \<or> prefix q p"
      by (rule prefix_same_cases [of p a q, THEN disjE]) auto
    with pq qp show False by blast
  qed
  then show ?thesis by (simp add: filter_empty_conv)
qed

lemma af3_bool_tokens:
  assumes "fst (af3_prepare h w argv f) = Inr (img, cmd, opts, nv)"
  shows "count_list cmd ''--run_data_pipeline=true'' = (if a_run_data_pipeline f then 1 else 0)"
    and "count_list cmd ''--run_data_pipeline=false'' = (if a_run_data_pipeline f then 0 else 1)"
    and "count_list cmd ''--run_inference=true'' = (if a_run_inference f then 1 else 0)"
    and "count_list cmd ''--run_inference=false'' = (if a_run_inference f then 0 else 1)"
    and "count_list cmd ''--save_embeddings=true'' = (if a_save_embeddings f then 1 else 0)"
    and "count_list cmd ''--save_embeddings=false'' = (if a_save_embeddings f then 0 else 1)"
    and "count_list cmd ''--force_output_dir=true'' = (if a_force_output_dir f then 1 else 0)"
    and "count_list cmd ''--force_output_dir=false'' = (if a_force_output_dir f then 0 else 1)"
proof -
  from af3_prepare_shape [OF assms] obtain a1 x y a4 where
    cmd: "cmd = [''python'', ''/app/run_alphafold.py''] @ a1
                 @ [''--output_dir='' @ x, ''--model_dir='' @ y] @ a4 @ af3_option_args f"
    and a1: "a1 = [] \<or> (\<exists>z. a1 = [''--input_dir='' @ z]) \<or> (\<exists>z. a1 = [''--json_path='' @ z])"
    and a4: "\<forall>a \<in> set a4. prefix ''--db_dir='' a"
    by blast
  note db = count_prefix_none [OF a4]
  show "count_list cmd ''--run_data_pipeline=true'' = (if a_run_data_pipeline f then 1 else 0)"
    using a1 unfolding cmd af3_option_args_def bool_lower_def
    by (auto simp: db split: option.splits)
  show "count_list cmd ''--run_data_pipeline=false'' = (if a_run_data_pipeline f then 0 else 1)"
    using a1 unfolding cmd af3_option_args_def bool_lower_def
    by (auto simp: db split: option.splits)
  show "count_list cmd ''--run_inference=true'' = (if a_run_inference f then 1 else 0)"
    using a1 unfolding cmd af3_option_args_def bool_lower_def
    by (auto simp: db split: option.splits)
  show "count_list cmd ''--run_inference=false'' = (if a_run_inference f then 0 else 1)"
    using a1 unfolding cmd af3_option_args_def bool_lower_def
    by (auto simp: db split: option.splits)
  show "count_list cmd ''--save_embeddings=true'' = (if a_save_embeddings f then 1 else 0)"
    using a1 unfolding cmd af3_option_args_def bool_lower_def
    by (auto simp: db split: option.splits)
  show "count_list cmd ''--save_embeddings=false'' = (if a_save_embeddings f then 0 else 1)"
    using a1 unfolding cmd af3_option_args_def bool_lower_def
    by (auto simp: db split: option.splits)
  show "count_list cmd ''--force_output_dir=true'' = (if a_force_output_dir f then 1 else 0)"
    using a1 unfolding cmd af3_option_args_def bool_lower_def
    by (auto simp: db split: option.splits)
  show "count_list cmd ''--force_output_dir=false'' = (if a_force_output_dir f then 0 else 1)"
    using a1 unfolding cmd af3_option_args_def bool_lower_def
    by (auto simp: db split: option.splits)
qed

lemma singleton_or_empty_prefix:
  "a = [] \<or> (\<exists>z. a = [q @ z]) \<Longrightarrow> \<forall>x \<in> set a. prefix q x"
  by auto

lemma abs_path_Cons: "prefix ''/'' s \<Longrightarrow> \<exists>r. s = CHR ''/'' # r"
  by (cases s) auto

lemma chai_bool_tokens:
  assumes "fst (chai_prepare h w argv f) = Inr (img, cmd, opts, nv)"
  shows "filter (prefix ''--use-esm-embeddings'') cmd
           = (if c_use_esm_embeddings f then [] else [''--use-esm-embeddings=false''])"
    and "filter (prefix ''--use-msa-server'') cmd
           = (if c_use_msa_server f then [''--use-msa-server''] else [])"
    and "filter (prefix ''--use-templates-server'') cmd
           = (if c_use_templates_server f then [''--use-templates-server''] else [])"
    and "filter (prefix ''--low-memory'') cmd
           = (if c_low_memory f then [] else [''--low-memory=false''])"
proof -
  from chai_prepare_shape [OF assms] obtain cf co a3 a4 a5 where
    cmd: "cmd = [''chai-lab'', ''fold'', cf, co] @ a3 @ a4 @ a5 @ chai_option_args f"
    and cf: "prefix ''/'' cf" and co: "prefix ''/'' co"
    and a3: "a3 = [] \<or> (\<exists>z. a3 = [''--msa-directory='' @ z])"
    and a4: "a4 = [] \<or> (\<exists>z. a4 = [''--constraint-path='' @ z])"
    and a5: "a5 = [] \<or> (\<exists>z. a5 = [''--template-hits-path='' @ z])"
    by (elim exE conjE) (rule that)
  from abs_path_Cons [OF cf] abs_path_Cons [OF co]
  obtain r1 r2 where c: "cf = CHR ''/'' # r1" "co = CHR ''/'' # r2"
    by (elim exE) (rule that)
  note p3 = filter_prefix_none [OF singleton_or_empty_prefix [OF a3]]
  note p4 = filter_prefix_none [OF singleton_or_empty_prefix [OF a4]]
  note p5 = filter_prefix_none [OF singleton_or_empty_prefix [OF a5]]
  show "filter (prefix ''--use-esm-embeddings'') cmd
           = (if c_use_esm_embeddings f then [] else [''--use-esm-embeddings=false''])"
    unfolding cmd c chai_option_args_def
    by (simp add: p3 p4 p5 split: option.splits)
  show "filter (prefix ''--use-msa-server'') cmd
           = (if c_use_msa_server f then [''--use-msa-server''] else [])"
    unfolding cmd c chai_option_args_def
    by (simp add: p3 p4 p5 split: option.splits)
  show "filter (prefix ''--use-templates-server'') cmd
           = (if c_use_templates_server f then [''--use-templates-server''] else [])"
    unfolding cmd c chai_option_args_def
    by (simp add: p3 p4 p5 split: option.splits)
  show "filter (prefix ''--low-memory'') cmd
           = (if c_low_memory f then [] else [''--low-memory=false''])"
    unfolding cmd c chai_option_args_def
    by (simp add: p3 p4 p5 split: option.splits)
qed

lemma filter_if_token:
  "\<not> P x \<Longrightarrow> \<not> P y \<Longrightarrow> filter P ((if b then x else y) # rest) = filter P rest"
  by simp

lemma prefix_append_neither:
  assumes "\<not> prefix p q" and "\<not> prefix q p"
  shows "\<not> prefix p (q @ x)"
proof
  assume "prefix p (q @ x)"
  moreover have "prefix q (q @ x)" by simp
  ultimately have "prefix p q \<or> prefix q p"
    by (rule prefix_same_cases [of p "q @ x" q, THEN disjE]) auto
  with assms show False by blast
qed

lemma dash_not_abs: "prefix ''-'' p \<Longrightarrow> \<not> prefix p (CHR ''/'' # rest)"
  by (cases p) auto

lemma boltz_cmd_filter:
  assumes run: "fst (boltz_prepare h w argv f) = Inr (img, cmd, opts, nv)"
    and p: "prefix ''-'' p"
    and o: "\<not> prefix p ''--out_dir=''" "\<not> prefix ''--out_dir='' p"
    and c: "\<not> prefix p ''--cache=''" "\<not> prefix ''--cache='' p"
    and k: "\<not> prefix p ''--checkpoint=''" "\<not> prefix ''--checkpoint='' p"
  shows "filter (prefix p) cmd = filter (prefix p) (boltz_option_args h f)"
proof -
  from boltz_prepare_shape [OF run] obtain cid x y cs where
    cmd: "cmd = [''boltz'', ''predict'', cid, ''--out_dir='' @ x, ''--cache='' @ y] @ cs
                 @ boltz_option_args h f"
    and cid: "prefix ''/'' cid" and cs: "cs = [] \<or> (\<exists>z. cs = [''--checkpoint='' @ z])"
    by (elim exE conjE) (rule that)
  from abs_path_Cons [OF cid] obtain rest where r: "cid = CHR ''/'' # rest"
    by (elim exE) (rule that)
  from p obtain p' where p': "p = CHR ''-'' # p'" by (cases p) auto
  have h1: "\<not> prefix p ''boltz''" "\<not> prefix p ''predict''"
    unfolding p' by simp_all
  have h2: "\<not> prefix p cid"
    unfolding r using p by (rule dash_not_abs)
  have h3: "\<not> prefix p (''--out_dir='' @ x)"
    using o by (rule prefix_append_neither)
  have h3': "\<not> prefix p (''--cache='' @ y)"
    using c by (rule prefix_append_neither)
  have h4: "filter (prefix p) cs = []"
    using singleton_or_empty_prefix [OF cs] k by (rule filter_prefix_none)
  have "filter (prefix p) [''boltz'', ''predict'', cid, ''--out_dir='' @ x, ''--cache='' @ y] = []"
    using h1 h2 h3 h3' by (simp only: filter.simps if_False)
  then show ?thesis
    unfolding cmd filter_append h4 by (simp only: append_Nil)
qed

lemma boltz_option_filter:
  "filter (prefix ''--devices='') (boltz_option_args h f)
     = (if b_devices f \<noteq> 1 then [''--devices='' @ int_str (b_devices f)] else [])"
  "filter (prefix ''--accelerator='') (boltz_option_args h f)
     = (if b_accelerator f \<noteq> ''gpu'' then [''--accelerator='' @ b_accelerator f] else [])"
  "filter (prefix ''--recycling_steps='') (boltz_option_args h f)
     = (if b_recycling_steps f \<noteq> 3
        then [''--recycling_steps='' @ int_str (b_recycling_steps f)] else [])"
  "filter (prefix ''--sampling_steps='') (boltz_option_args h f)
     = (if b_sampling_steps f \<noteq> 200
        then [''--sampling_steps='' @ int_str (b_sampling_steps f)] else [])"
  "filter (prefix ''--diffusion_samples='') (boltz_option_args h f)
     = (if b_diffusion_samples f \<noteq> 1
        then [''--diffusion_samples='' @ int_str (b_diffusion_samples f)] else [])"
  "filter (prefix ''--step_scale='') (boltz_option_args h f)
     = (if \<bar>b_step_scale f - 1.638\<bar> > 0.000001
        then [''--step_scale='' @ float_str h (b_step_scale f)] else [])"
  "filter (prefix ''--output_format='') (boltz_option_args h f)
     = (if b_output_format f \<noteq> ''mmcif''
        then [''--output_format='' @ b_output_format f] else [])"
  "filter (prefix ''--num_workers='') (boltz_option_args h f)
     = (if b_num_workers f \<noteq> 2
        then [''--num_workers='' @ int_str (b_num_workers f)] else [])"
  "filter (prefix ''--seed='') (boltz_option_args h f)
     = (case b_seed f of None \<Rightarrow> [] | Some s \<Rightarrow> [''--seed='' @ int_str s])"
  "filter (prefix ''--msa_server_url='') (boltz_option_args h f)
     = (if b_use_msa_server f \<and> b_msa_server_url f \<noteq> ''https://api.colabfold.com''
        then [''--msa_server_url='' @ b_msa_server_url f] else [])"
  "filter (prefix ''--msa_pairing_strategy='') (boltz_option_args h f)
     = (if b_use_msa_server f \<and> b_msa_pairing_strategy f \<noteq> ''greedy''
        then [''--msa_pairing_strategy='' @ b_msa_pairing_strategy f] else [])"
  unfolding boltz_option_args_def
  by (simp_all add: filter_if_token split: option.splits)

lemma boltz_scalar_tokens:
  assumes run: "fst (boltz_prepare h w argv f) = Inr (img, cmd, opts, nv)"
  shows "filter (prefix ''--devices='') cmd
           = (if b_devices f \<noteq> 1 then [''--devices='' @ int_str (b_devices f)] else [])"
    and "filter (prefix ''--accelerator='') cmd
           = (if b_accelerator f \<noteq> ''gpu'' then [''--accelerator='' @ b_accelerator f] else [])"
    and "filter (prefix ''--recycling_steps='') cmd
           = (if b_recycling_steps f \<noteq> 3
              then [''--recycling_steps='' @ int_str (b_recycling_steps f)] else [])"
    and "filter (prefix ''--sampling_steps='') cmd
           = (if b_sampling_steps f \<noteq> 200
              then [''--sampling_steps='' @ int_str (b_sampling_steps f)] else [])"
    and "filter (prefix ''--diffusion_samples='') cmd
           = (if b_diffusion_samples f \<noteq> 1
              then [''--diffusion_samples='' @ int_str (b_diffusion_samples f)] else [])"
    and "filter (prefix ''--step_scale='') cmd
           = (if \<bar>b_step_scale f - 1.638\<bar> > 0.000001
              then [''--step_scale='' @ float_str h (b_step_scale f)] else [])"
    and "filter (prefix ''--output_format='') cmd
           = (if b_output_format f \<noteq> ''mmcif''
              then [''--output_format='' @ b_output_format f] else [])"
    and "filter (prefix ''--num_workers='') cmd
           = (if b_num_workers f \<noteq> 2
              then [''--num_workers='' @ int_str (b_num_workers f)] else [])"
    and "filter (prefix ''--seed='') cmd
           = (case b_seed f of None \<Rightarrow> [] | Some s \<Rightarrow> [''--seed='' @ int_str s])"
    and "filter (prefix ''--msa_server_url='') cmd
           = (if b_use_msa_server f \<and> b_msa_server_url f \<noteq> ''https://api.colabfold.com''
              then [''--msa_server_url='' @ b_msa_server_url f] else [])"
    and "filter (prefix ''--msa_pairing_strategy='') cmd
           = (if b_use_msa_server f \<and> b_msa_pairing_strategy f \<noteq> ''greedy''
              then [''--msa_pairing_strategy='' @ b_msa_pairing_strategy f] else [])"
proof -
  note head = boltz_cmd_filter [OF run]
  show "filter (prefix ''--devices='') cmd
             = (if b_devices f \<noteq> 1 then [''--devices='' @ int_str (b_devices f)] else [])"
    by (subst head) (simp_all add: boltz_option_filter)
  show "filter (prefix ''--accelerator='') cmd
             = (if b_accelerator f \<noteq> ''gpu'' then [''--accelerator='' @ b_accelerator f] else [])"
    by (subst head) (simp_all add: boltz_option_filter)
  show "filter (prefix ''--recycling_steps='') cmd
             = (if b_recycling_steps f \<noteq> 3
                then [''--recycling_steps='' @ int_str (b_recycling_steps f)] else [])"
    by (subst head) (simp_all add: boltz_option_filter)
  show "filter (prefix ''--sampling_steps='') cmd
             = (if b_sampling_steps f \<noteq> 200
                then [''--sampling_steps='' @ int_str (b_sampling_steps f)] else [])"
    by (subst head) (simp_all add: boltz_option_filter)
  show "filter (prefix ''--diffusion_samples='') cmd
             = (if b_diffusion_samples f \<noteq> 1
                then [''--diffusion_samples='' @ int_str (b_diffusion_samples f)] else [])"
    by (subst head) (simp_all add: boltz_option_filter)
  show "filter (prefix ''--step_scale='') cmd
             = (if \<bar>b_step_scale f - 1.638\<bar> > 0.000001
                then [''--step_scale='' @ float_str h (b_step_scale f)] else [])"
    by (subst head) (simp_all add: boltz_option_filter)
  show "filter (prefix ''--output_format='') cmd
             = (if b_output_format f \<noteq> ''mmcif''
                then [''--output_format='' @ b_output_format f] else [])"
    by (subst head) (simp_all add: boltz_option_filter)
  show "filter (prefix ''--num_workers='') cmd
             = (if b_num_workers f \<noteq> 2
                then [''--num_workers='' @ int_str (b_num_workers f)] else [])"
    by (subst head) (simp_all add: boltz_option_filter)
  show "filter (prefix ''--seed='') cmd
             = (case b_seed f of None \<Rightarrow> [] | Some s \<Rightarrow> [''--seed='' @ int_str s])"
    by (subst head) (simp_all add: boltz_option_filter)
  show "filter (prefix ''--msa_server_url='') cmd
             = (if b_use_msa_server f \<and> b_msa_server_url f \<noteq> ''https://api.colabfold.com''
                then [''--msa_server_url='' @ b_msa_server_url f] else [])"
    by (subst head) (simp_all add: boltz_option_filter)
  show "filter (prefix ''--msa_pairing_strategy='') cmd
             = (if b_use_msa_server f \<and> b_msa_pairing_strategy f \<noteq> ''greedy''
                then [''--msa_pairing_strategy='' @ b_msa_pairing_strategy f] else [])"
    by (subst head) (simp_all add: boltz_option_filter)
qed

lemma chai_cmd_filter:
  assumes run: "fst (chai_prepare h w argv f) = Inr (img, cmd, opts, nv)"
    and p: "prefix ''-'' p"
    and m: "\<not> prefix p ''--msa-directory=''" "\<not> prefix ''--msa-directory='' p"
    and c: "\<not> prefix p ''--constraint-path=''" "\<not> prefix ''--constraint-path='' p"
    and t: "\<not> prefix p ''--template-hits-path=''" "\<not> prefix ''--template-hits-path='' p"
  shows "filter (prefix p) cmd = filter (prefix p) (chai_option_args f)"
proof -
  from chai_prepare_shape [OF run] obtain cf co a3 a4 a5 where
    cmd: "cmd = [''chai-lab'', ''fold'', cf, co] @ a3 @ a4 @ a5 @ chai_option_args f"
    and cf: "prefix ''/'' cf" and co: "prefix ''/'' co"
    and a3: "a3 = [] \<or> (\<exists>z. a3 = [''--msa-directory='' @ z])"
    and a4: "a4 = [] \<or> (\<exists>z. a4 = [''--constraint-path='' @ z])"
    and a5: "a5 = [] \<or> (\<exists>z. a5 = [''--template-hits-path='' @ z])"
    by (elim exE conjE) (rule that)
  from abs_path_Cons [OF cf] abs_path_Cons [OF co]
  obtain r1 r2 where r: "cf = CHR ''/'' # r1" "co = CHR ''/'' # r2"
    by (elim exE) (rule that)
  from p obtain p' where p': "p = CHR ''-'' # p'" by (cases p) auto
  have h1: "\<not> prefix p ''chai-lab''" "\<not> prefix p ''fold''"
    unfolding p' by simp_all
  have h2: "\<not> prefix p cf" "\<not> prefix p co"
    unfolding r using p by (simp_all add: dash_not_abs)
  have h3: "filter (prefix p) a3 = []"
    using singleton_or_empty_prefix [OF a3] m by (rule filter_prefix_none)
  have h4: "filter (prefix p) a4 = []"
    using singleton_or_empty_prefix [OF a4] c by (rule filter_prefix_none)
  have h5: "filter (prefix p) a5 = []"
    using singleton_or_empty_prefix [OF a5] t by (rule filter_prefix_none)
  have "filter (prefix p) [''chai-lab'', ''fold'', cf, co] = []"
    using h1 h2 by (simp only: filter.simps if_False)
  then show ?thesis
    unfolding cmd filter_append h3 h4 h5 by (simp only: append_Nil)
qed

lemma chai_option_filter:
  "filter (prefix ''--msa-server-url='') (chai_option_args f)
     = (if c_msa_server_url f \<noteq> ''https://api.colabfold.com''
        then [''--msa-server-url='' @ c_msa_server_url f] else [])"
  "filter (prefix ''--recycle-msa-subsample='') (chai_option_args f)
     = (if c_recycle_msa_subsample f \<noteq> 0
        then [''--recycle-msa-subsample='' @ int_str (c_recycle_msa_subsample f)] else [])"
  "filter (prefix ''--num-trunk-recycles='') (chai_option_args f)
     = (if c_num_trunk_recycles f \<noteq> 3
        then [''--num-trunk-recycles='' @ int_str (c_num_trunk_recycles f)] else [])"
  "filter (prefix ''--num-diffn-timesteps='') (chai_option_args f)
     = (if c_num_diffn_timesteps f \<noteq> 200
        then [''--num-diffn-timesteps='' @ int_str (c_num_diffn_timesteps f)] else [])"
  "filter (prefix ''--num-diffn-samples='') (chai_option_args f)
     = (if c_num_diffn_samples f \<noteq> 5
        then [''--num-diffn-samples='' @ int_str (c_num_diffn_samples f)] else [])"
  "filter (prefix ''--num-trunk-samples='') (chai_option_args f)
     = (if c_num_trunk_samples f \<noteq> 1
        then [''--num-trunk-samples='' @ int_str (c_num_trunk_samples f)] else [])"
  "filter (prefix ''--seed='') (chai_option_args f)
     = (case c_seed f of None \<Rightarrow> [] | Some s \<Rightarrow> [''--seed='' @ int_str s])"
  "filter (prefix ''--device='') (chai_option_args f)
     = (case c_device f of None \<Rightarrow> []
        | Some d \<Rightarrow> if d \<noteq> [] then [''--device='' @ d] else [])"
  unfolding chai_option_args_def
  by (simp_all split: option.splits)

lemma chai_scalar_tokens:
  assumes run: "fst (chai_prepare h w argv f) = Inr (img, cmd, opts, nv)"
  shows "filter (prefix ''--msa-server-url='') cmd
     = (if c_msa_server_url f \<noteq> ''https://api.colabfold.com''
        then [''--msa-server-url='' @ c_msa_server_url f] else [])"
  and "filter (prefix ''--recycle-msa-subsample='') cmd
     = (if c_recycle_msa_subsample f \<noteq> 0
        then [''--recycle-msa-subsample='' @ int_str (c_recycle_msa_subsample f)] else [])"
  and "filter (prefix ''--num-trunk-recycles='') cmd
     = (if c_num_trunk_recycles f \<noteq> 3
        then [''--num-trunk-recycles='' @ int_str (c_num_trunk_recycles f)] else [])"
  and "filter (prefix ''--num-diffn-timesteps='') cmd
     = (if c_num_diffn_timesteps f \<noteq> 200
        then [''--num-diffn-timesteps='' @ int_str (c_num_diffn_timesteps f)] else [])"
  and "filter (prefix ''--num-diffn-samples='') cmd
     = (if c_num_diffn_samples f \<noteq> 5
        then [''--num-diffn-samples='' @ int_str (c_num_diffn_samples f)] else [])"
  and "filter (prefix ''--num-trunk-samples='') cmd
     = (if c_num_trunk_samples f \<noteq> 1
        then [''--num-trunk-samples='' @ int_str (c_num_trunk_samples f)] else [])"
  and "filter (prefix ''--seed='') cmd
     = (case c_seed f of None \<Rightarrow> [] | Some s \<Rightarrow> [''--seed='' @ int_str s])"
  and "filter (prefix ''--device='') cmd
     = (case c_device f of None \<Rightarrow> []
        | Some d \<Rightarrow> if d \<noteq> [] then [''--device='' @ d] else [])"
proof -
  note head = chai_cmd_filter [OF run]
  show "filter (prefix ''--msa-server-url='') cmd
     = (if c_msa_server_url f \<noteq> ''https://api.colabfold.com''
        then [''--msa-server-url='' @ c_msa_server_url f] else [])"
    by (subst head) (simp_all add: chai_option_filter)
  show "filter (prefix ''--recycle-msa-subsample='') cmd
     = (if c_recycle_msa_subsample f \<noteq> 0
        then [''--recycle-msa-subsample='' @ int_str (c_recycle_msa_subsample f)] else [])"
    by (subst head) (simp_all add: chai_option_filter)
  show "filter (prefix ''--num-trunk-recycles='') cmd
     = (if c_num_trunk_recycles f \<noteq> 3
        then [''--num-trunk-recycles='' @ int_str (c_num_trunk_recycles f)] else [])"
    by (subst head) (simp_all add: chai_option_filter)
  show "filter (prefix ''--num-diffn-timesteps='') cmd
     = (if c_num_diffn_timesteps f \<noteq> 200
        then [''--num-diffn-timesteps='' @ int_str (c_num_diffn_timesteps f)] else [])"
    by (subst head) (simp_all add: chai_option_filter)
  show "filter (prefix ''--num-diffn-samples='') cmd
     = (if c_num_diffn_samples f \<noteq> 5
        then [''--num-diffn-samples='' @ int_str (c_num_diffn_samples f)] else [])"
    by (subst head) (simp_all add: chai_option_filter)
  show "filter (prefix ''--num-trunk-samples='') cmd
     = (if c_num_trunk_samples f \<noteq> 1
        then [''--num-trunk-samples='' @ int_str (c_num_trunk_samples f)] else [])"
    by (subst head) (simp_all add: chai_option_filter)
  show "filter (prefix ''--seed='') cmd
     = (case c_seed f of None \<Rightarrow> [] | Some s \<Rightarrow> [''--seed='' @ int_str s])"
    by (subst head) (simp_all add: chai_option_filter)
  show "filter (prefix ''--device='') cmd
     = (case c_device f of None \<Rightarrow> []
        | Some d \<Rightarrow> if d \<noteq> [] then [''--device='' @ d] else [])"
    by (subst head) (simp_all add: chai_option_filter)
qed

lemma af3_cmd_filter:
  assumes run: "fst (af3_prepare h w argv f) = Inr (img, cmd, opts, nv)"
    and p: "prefix ''-'' p"
    and i: "\<not> prefix p ''--input_dir=''" "\<not> prefix ''--input_dir='' p"
    and j: "\<not> prefix p ''--json_path=''" "\<not> prefix ''--json_path='' p"
    and o: "\<not> prefix p ''--output_dir=''" "\<not> prefix ''--output_dir='' p"
    and m: "\<not> prefix p ''--model_dir=''" "\<not> prefix ''--model_dir='' p"
    and d: "\<not> prefix p ''--db_dir=''" "\<not> prefix ''--db_dir='' p"
  shows "filter (prefix p) cmd = filter (prefix p) (af3_option_args f)"
proof -
  from af3_prepare_shape [OF run] obtain a1 x y a4 where
    cmd: "cmd = [''python'', ''/app/run_alphafold.py''] @ a1
                 @ [''--output_dir='' @ x, ''--model_dir='' @ y] @ a4 @ af3_option_args f"
    and a1: "a1 = [] \<or> (\<exists>z. a1 = [''--input_dir='' @ z]) \<or> (\<exists>z. a1 = [''--json_path='' @ z])"
    and a4: "\<forall>a \<in> set a4. prefix ''--db_dir='' a"
    by (elim exE conjE) (rule that)
  from p obtain p' where p': "p = CHR ''-'' # p'" by (cases p) auto
  have h1: "\<not> prefix p ''python''" "\<not> prefix p ''/app/run_alphafold.py''"
    unfolding p' by simp_all
  have h2: "\<not> prefix p (''--output_dir='' @ x)"
    using o by (rule prefix_append_neither)
  have h2': "\<not> prefix p (''--model_dir='' @ y)"
    using m by (rule prefix_append_neither)
  have h3: "filter (prefix p) a1 = []"
    using a1
  proof (elim disjE exE)
    assume "a1 = []"
    then show ?thesis by simp
  next
    fix z assume "a1 = [''--input_dir='' @ z]"
    with prefix_append_neither [OF i, of z] show ?thesis by (simp only: filter.simps if_False)
  next
    fix z assume "a1 = [''--json_path='' @ z]"
    with prefix_append_neither [OF j, of z] show ?thesis by (simp only: filter.simps if_False)
  qed
  have h4: "filter (prefix p) a4 = []"
    using a4 d by (rule filter_prefix_none)
  have h5: "filter (prefix p) [''python'', ''/app/run_alphafold.py''] = []"
    using h1 by (simp only: filter.simps if_False)
  have h6: "filter (prefix p) [''--output_dir='' @ x, ''--model_dir='' @ y] = []"
    using h2 h2' by (simp only: filter.simps if_False)
  show ?thesis
    unfolding cmd filter_append h3 h4 h5 h6 by (simp only: append_Nil)
qed

lemma af3_option_filter:
  "filter (prefix ''--conformer_max_iterations='') (af3_option_args f)
     = [''--conformer_max_iterations='' @ int_str (a_conformer_max_iterations f)]"
  "filter (prefix ''--jackhmmer_n_cpu='') (af3_option_args f)
     = [''--jackhmmer_n_cpu='' @ int_str (a_jackhmmer_n_cpu f)]"
  "filter (prefix ''--nhmmer_n_cpu='') (af3_option_args f)
     = [''--nhmmer_n_cpu='' @ int_str (a_nhmmer_n_cpu f)]"
  "filter (prefix ''--max_template_date='') (af3_option_args f)
     = [''--max_template_date='' @ a_max_template_date f]"
  "filter (prefix ''--num_recycles='') (af3_option_args f)
     = [''--num_recycles='' @ int_str (a_num_recycles f)]"
  "filter (prefix ''--num_diffusion_samples='') (af3_option_args f)
     = [''--num_diffusion_samples='' @ int_str (a_num_diffusion_samples f)]"
  "filter (prefix ''--flash_attention_implementation='') (af3_option_args f)
     = [''--flash_attention_implementation='' @ a_flash_attention_implementation f]"
  "filter (prefix ''--num_seeds='') (af3_option_args f)
     = (case a_num_seeds f of None \<Rightarrow> [] | Some n \<Rightarrow> [''--num_seeds='' @ int_str n])"
  "filter (prefix ''--msa'') (af3_option_args f) = []"
  unfolding af3_option_args_def
  by (simp_all split: option.splits)

lemma af3_scalar_tokens:
  assumes run: "fst (af3_prepare h w argv f) = Inr (img, cmd, opts, nv)"
  shows "filter (prefix ''--conformer_max_iterations='') cmd
     = [''--conformer_max_iterations='' @ int_str (a_conformer_max_iterations f)]"
  and "filter (prefix ''--jackhmmer_n_cpu='') cmd
     = [''--jackhmmer_n_cpu='' @ int_str (a_jackhmmer_n_cpu f)]"
  and "filter (prefix ''--nhmmer_n_cpu='') cmd
     = [''--nhmmer_n_cpu='' @ int_str (a_nhmmer_n_cpu f)]"
  and "filter (prefix ''--max_template_date='') cmd
     = [''--max_template_date='' @ a_max_template_date f]"
  and "filter (prefix ''--num_recycles='') cmd
     = [''--num_recycles='' @ int_str (a_num_recycles f)]"
  and "filter (prefix ''--num_diffusion_samples='') cmd
     = [''--num_diffusion_samples='' @ int_str (a_num_diffusion_samples f)]"
  and "filter (prefix ''--flash_attention_implementation='') cmd
     = [''--flash_attention_implementation='' @ a_flash_attention_implementation f]"
  and "filter (prefix ''--num_seeds='') cmd
     = (case a_num_seeds f of None \<Rightarrow> [] | Some n \<Rightarrow> [''--num_seeds='' @ int_str n])"
  and "filter (prefix ''--msa'') cmd = []"
proof -
  note head = af3_cmd_filter [OF run]
  show "filter (prefix ''--conformer_max_iterations='') cmd
     = [''--conformer_max_iterations='' @ int_str (a_conformer_max_iterations f)]"
    by (subst head) (simp_all add: af3_option_filter)
  show "filter (prefix ''--jackhmmer_n_cpu='') cmd
     = [''--jackhmmer_n_cpu='' @ int_str (a_jackhmmer_n_cpu f)]"
    by (subst head) (simp_all add: af3_option_filter)
  show "filter (prefix ''--nhmmer_n_cpu='') cmd
     = [''--nhmmer_n_cpu='' @ int_str (a_nhmmer_n_cpu f)]"
    by (subst head) (simp_all add: af3_option_filter)
  show "filter (prefix ''--max_template_date='') cmd
     = [''--max_template_date='' @ a_max_template_date f]"
    by (subst head) (simp_all add: af3_option_filter)
  show "filter (prefix ''--num_recycles='') cmd
     = [''--num_recycles='' @ int_str (a_num_recycles f)]"
    by (subst head) (simp_all add: af3_option_filter)
  show "filter (prefix ''--num_diffusion_samples='') cmd
     = [''--num_diffusion_samples='' @ int_str (a_num_diffusion_samples f)]"
    by (subst head) (simp_all add: af3_option_filter)
  show "filter (prefix ''--flash_attention_implementation='') cmd
     = [''--flash_attention_implementation='' @ a_flash_attention_implementation f]"
    by (subst head) (simp_all add: af3_option_filter)
  show "filter (prefix ''--num_seeds='') cmd
     = (case a_num_seeds f of None \<Rightarrow> [] | Some n \<Rightarrow> [''--num_seeds='' @ int_str n])"
    by (subst head) (simp_all add: af3_option_filter)
  show "filter (prefix ''--msa'') cmd = []"
    by (subst head) (simp_all add: af3_option_filter)
qed

lemma boltz_run:
  "fst (boltz_prepare run_host run_world [''launcher''] boltz_run_flags) =
   Inr (''/images/boltz.sif'',
      [''boltz'', ''predict'', ''/mnt_launcher/input_data/protein.fasta'',
       ''--out_dir=/mnt_launcher/output'',
       ''--cache=/mnt_launcher/boltz_cache'', ''--no-write-full-pae'',
       ''--no-write-full-pde'', ''--no-override'', ''--no-use-msa-server'',
       ''--potentials'', ''--devices=2''],
      [''--bind'',
       ''/data:/mnt_launcher/input_data:ro,/home/user/boltz_output:/mnt_launcher/output,/home/user/.boltz:/mnt_launcher/boltz_cache,/tmp:/mnt_launcher/tmp'',
       ''--env'', ''NVIDIA_VISIBLE_DEVICES=all'', ''--env'',
       ''BOLTZ_CACHE=/mnt_launcher/boltz_cache'', ''--env'',
       ''TMPDIR=/mnt_launcher/tmp''],
      True)"
  by (simp add: run_host_def run_world_def boltz_run_flags_def demo_host_def
        boltz_defs run_defs path_defs Let_def)

lemma chai_plain_run:
  "fst (chai_prepare run_host run_world [''launcher''] chai_plain_flags) =
   Inr (''/images/chai.sif'',
      [''chai-lab'', ''fold'', ''/mnt/fasta/protein.fasta'', ''/mnt/output''],
      [''--bind'',
       ''/data:/mnt/fasta,/home/user/chailab_output:/mnt/output,/tmp:/mnt/tmp'',
       ''--env'', ''NVIDIA_VISIBLE_DEVICES=all'', ''--env'',
       ''TMPDIR=/mnt/tmp''],
      True)"
  by (simp add: run_host_def run_world_def chai_plain_flags_def demo_host_def
        chai_defs run_defs path_defs Let_def)

lemma chai_run:
  "fst (chai_prepare run_host run_world [''launcher''] chai_run_flags) =
   Inr (''/images/chai.sif'',
      [''chai-lab'', ''fold'', ''/mnt/fasta/protein.fasta'',
       ''/mnt/output'', ''--msa-server-url=http://localhost:8080'',
       ''--num-trunk-recycles=4''],
      [''--bind'',
       ''/data:/mnt/fasta,/home/user/chailab_output:/mnt/output,/tmp:/mnt/tmp'',
       ''--env'', ''NVIDIA_VISIBLE_DEVICES=all'', ''--env'',
       ''TMPDIR=/mnt/tmp''],
      True)"
  by (simp add: run_host_def run_world_def chai_run_flags_def demo_host_def
        chai_defs run_defs path_defs Let_def)

lemma af3_run:
  "fst (af3_prepare af3_demo_host af3_demo_world [''launcher''] af3_demo_flags) =
   Inr (''/images/af3.sif'',
      [''python'', ''/app/run_alphafold.py'',
       ''--json_path=/mnt/json_input/fold.json'',
       ''--output_dir=/mnt/output'', ''--model_dir=/mnt/models'',
       ''--db_dir=/mnt/db_0'', ''--run_data_pipeline=true'',
       ''--run_inference=true'', ''--conformer_max_iterations=10000'',
       ''--jackhmmer_n_cpu=4'', ''--nhmmer_n_cpu=4'',
       ''--max_template_date=2021-09-30'', ''--num_recycles=10'',
       ''--num_diffusion_samples=5'',
       ''--flash_attention_implementation=triton'',
       ''--save_embeddings=false'', ''--force_output_dir=false'',
       ''--logtostderr''],
      [''--bind'',
       ''/data:/mnt/json_input,/home/user/alphafold3_output:/mnt/output,/models:/mnt/models,/db:/mnt/db_0,/tmp:/mnt/tmp'',
       ''--env'', ''NVIDIA_VISIBLE_DEVICES=all''],
      True)"
  by (simp add: af3_demo_host_def af3_demo_world_def af3_demo_flags_def demo_host_def
        af3_defs run_defs path_defs Let_def)


section \<open>The bind-path resolver: container path, bind source and bind target\<close>

text \<open>
  Claim C5. For every host path and mount-point name, whenever a launcher's
  \<^verbatim>\<open>_create_bind\<close> returns, the container path is the mount root joined with the
  mount-point name (\<^verbatim>\<open>os.path.join\<close>); for a file (\<open>is_dir\<close> false) the bind source is
  the parent directory of the absolute host path, the bind target is still the mount
  base, and the container path is the mount base joined with the file's base name.
  For a mount-point name that does not begin with a slash (every name the launchers
  pass) the container path begins with the mount root followed by the name.
\<close>

theorem create_bind_container_path:
  "(boltz_create_bind h w name hp is_dir ro = (Inr (spec, cpath), w') \<longrightarrow>
      (let host_path = abspath (cwd h) (expanduser h hp);
           target_base = path_join boltz_ROOT_MOUNT_DIRECTORY name
       in cpath = (if is_dir then target_base else path_join target_base (basename host_path))
          \<and> spec = (if is_dir then host_path else dirname host_path) @ '':'' @ target_base
                     @ (if ro then '':ro'' else [])
          \<and> (\<not> prefix ''/'' name \<longrightarrow> prefix (boltz_ROOT_MOUNT_DIRECTORY @ name) cpath)))
   \<and> (chai_create_bind h w name hp is_dir = (Inr (spec, cpath), w') \<longrightarrow>
      (let host_path = abspath (cwd h) hp;
           target_base = path_join chai_ROOT_MOUNT_DIRECTORY name
       in cpath = (if is_dir then target_base else path_join target_base (basename host_path))
          \<and> spec = (if is_dir then host_path else dirname host_path) @ '':'' @ target_base
          \<and> (\<not> prefix ''/'' name \<longrightarrow> prefix (chai_ROOT_MOUNT_DIRECTORY @ name) cpath)))
   \<and> (af3_create_bind h w name hp is_dir = (Inr (spec, cpath), w') \<longrightarrow>
      (let host_path = abspath (cwd h) hp;
           target_base = path_join af3_ROOT_MOUNT_DIRECTORY name
       in cpath = (if is_dir then target_base else path_join target_base (basename host_path))
          \<and> spec = (if is_dir then host_path else dirname host_path) @ '':'' @ target_base
          \<and> (\<not> prefix ''/'' name \<longrightarrow> prefix (af3_ROOT_MOUNT_DIRECTORY @ name) cpath)))"
proof (intro conjI impI)
  assume "boltz_create_bind h w name hp is_dir ro = (Inr (spec, cpath), w')"
  then show "let host_path = abspath (cwd h) (expanduser h hp);
           target_base = path_join boltz_ROOT_MOUNT_DIRECTORY name
       in cpath = (if is_dir then target_base else path_join target_base (basename host_path))
          \<and> spec = (if is_dir then host_path else dirname host_path) @ '':'' @ target_base
                     @ (if ro then '':ro'' else [])
          \<and> (\<not> prefix ''/'' name \<longrightarrow> prefix (boltz_ROOT_MOUNT_DIRECTORY @ name) cpath)"
    unfolding boltz_create_bind_def Let_def
    by (auto split: if_splits sum.splits simp: boltz_root_join path_join_basename_prefix)
next
  assume "chai_create_bind h w name hp is_dir = (Inr (spec, cpath), w')"
  then show "let host_path = abspath (cwd h) hp;
           target_base = path_join chai_ROOT_MOUNT_DIRECTORY name
       in cpath = (if is_dir then target_base else path_join target_base (basename host_path))
          \<and> spec = (if is_dir then host_path else dirname host_path) @ '':'' @ target_base
          \<and> (\<not> prefix ''/'' name \<longrightarrow> prefix (chai_ROOT_MOUNT_DIRECTORY @ name) cpath)"
    unfolding chai_create_bind_def Let_def
    by (auto split: if_splits sum.splits simp: chai_root_join path_join_basename_prefix)
next
  assume "af3_create_bind h w name hp is_dir = (Inr (spec, cpath), w')"
  then show "let host_path = abspath (cwd h) hp;
           target_base = path_join af3_ROOT_MOUNT_DIRECTORY name
       in cpath = (if is_dir then target_base else path_join target_base (basename host_path))
          \<and> spec = (if is_dir then host_path else dirname host_path) @ '':'' @ target_base
          \<and> (\<not> prefix ''/'' name \<longrightarrow> prefix (af3_ROOT_MOUNT_DIRECTORY @ name) cpath)"
    unfolding af3_create_bind_def Let_def
    by (auto split: if_splits sum.splits simp: af3_root_join path_join_basename_prefix)
qed

text \<open>
  The three resolvers on the existing file \<^verbatim>\<open>/data/protein.fasta\<close>: each returns, with
  bind source \<^verbatim>\<open>/data\<close> and a container path that ends in the file's name.
\<close>

theorem create_bind_container_path_witness:
  "boltz_create_bind demo_host demo_world ''input_data'' ''/data/protein.fasta'' False True
     = (Inr (''/data:/mnt_launcher/input_data:ro'', ''/mnt_launcher/input_data/protein.fasta''),
        emit (Binding ''/data'' ''/mnt_launcher/input_data'') demo_world)
   \<and> \<not> prefix ''/'' ''input_data''
   \<and> prefix (boltz_ROOT_MOUNT_DIRECTORY @ ''input_data'') ''/mnt_launcher/input_data/protein.fasta''
   \<and> chai_create_bind demo_host demo_world ''fasta'' ''/data/protein.fasta'' False
     = (Inr (''/data:/mnt/fasta'', ''/mnt/fasta/protein.fasta''),
        emit (Binding ''/data'' ''/mnt/fasta'') demo_world)
   \<and> \<not> prefix ''/'' ''fasta''
   \<and> prefix (chai_ROOT_MOUNT_DIRECTORY @ ''fasta'') ''/mnt/fasta/protein.fasta''
   \<and> af3_create_bind demo_host demo_world ''json_input'' ''/data/protein.fasta'' False
     = (Inr (''/data:/mnt/json_input'', ''/mnt/json_input/protein.fasta''),
        emit (Binding ''/data'' ''/mnt/json_input'') demo_world)
   \<and> \<not> prefix ''/'' ''json_input''
   \<and> prefix (af3_ROOT_MOUNT_DIRECTORY @ ''json_input'') ''/mnt/json_input/protein.fasta''"
proof -
  have b: "prefix (boltz_ROOT_MOUNT_DIRECTORY @ ''input_data'')
             ''/mnt_launcher/input_data/protein.fasta''"
    using create_bind_container_path
      [THEN conjunct1, rule_format, OF demo_boltz_file, unfolded Let_def,
       THEN conjunct2, THEN conjunct2]
    by simp
  have c: "prefix (chai_ROOT_MOUNT_DIRECTORY @ ''fasta'') ''/mnt/fasta/protein.fasta''"
    using create_bind_container_path
      [THEN conjunct2, THEN conjunct1, rule_format, OF demo_chai_file, unfolded Let_def,
       THEN conjunct2, THEN conjunct2]
    by simp
  have a: "prefix (af3_ROOT_MOUNT_DIRECTORY @ ''json_input'')
             ''/mnt/json_input/protein.fasta''"
    using create_bind_container_path
      [THEN conjunct2, THEN conjunct2, rule_format, OF demo_af3_file, unfolded Let_def,
       THEN conjunct2, THEN conjunct2]
    by simp
  show ?thesis
    using a b c demo_boltz_file demo_chai_file demo_af3_file by simp
qed


section \<open>The bind-path resolver: a file bind looks at the parent directory only\<close>

text \<open>
  Claim C10. For a file bind (\<open>is_dir\<close> false) under a role that is not writable, the
  resolvers of the Boltz and Chai Lab launchers test the existence of the parent
  directory only: when the parent directory of the absolute host path exists and the
  path itself does not, the resolver returns, with the parent as bind source and a
  container path that names the missing file.
\<close>

theorem file_bind_checks_parent_only:
  "(\<not> (prefix ''output'' name \<or> name = ''tmp'' \<or> name = ''boltz_cache'')
      \<and> path_exists h w (dirname (abspath (cwd h) (expanduser h hp)))
      \<and> \<not> path_exists h w (abspath (cwd h) (expanduser h hp)) \<longrightarrow>
      fst (boltz_create_bind h w name hp False ro) =
        Inr (dirname (abspath (cwd h) (expanduser h hp)) @ '':''
               @ path_join boltz_ROOT_MOUNT_DIRECTORY name @ (if ro then '':ro'' else []),
             path_join (path_join boltz_ROOT_MOUNT_DIRECTORY name)
               (basename (abspath (cwd h) (expanduser h hp)))))
   \<and> (\<not> (prefix ''output'' name \<or> name = ''tmp'')
      \<and> path_exists h w (dirname (abspath (cwd h) hp))
      \<and> \<not> path_exists h w (abspath (cwd h) hp) \<longrightarrow>
      fst (chai_create_bind h w name hp False) =
        Inr (dirname (abspath (cwd h) hp) @ '':'' @ path_join chai_ROOT_MOUNT_DIRECTORY name,
             path_join (path_join chai_ROOT_MOUNT_DIRECTORY name)
               (basename (abspath (cwd h) hp))))"
  by (simp add: boltz_create_bind_def chai_create_bind_def Let_def)

text \<open>
  \<^verbatim>\<open>/data\<close> exists, \<^verbatim>\<open>/data/absent.yaml\<close> and \<^verbatim>\<open>/data/absent.fasta\<close> do not: both resolvers
  return a container path for the missing file.
\<close>

theorem file_bind_checks_parent_only_witness:
  "\<not> (prefix ''output'' ''input_data'' \<or> ''input_data'' = ''tmp''
       \<or> ''input_data'' = ''boltz_cache'')
   \<and> path_exists demo_host demo_world
        (dirname (abspath (cwd demo_host) (expanduser demo_host ''/data/absent.yaml'')))
   \<and> \<not> path_exists demo_host demo_world
          (abspath (cwd demo_host) (expanduser demo_host ''/data/absent.yaml''))
   \<and> fst (boltz_create_bind demo_host demo_world ''input_data'' ''/data/absent.yaml'' False True)
       = Inr (''/data:/mnt_launcher/input_data:ro'', ''/mnt_launcher/input_data/absent.yaml'')
   \<and> \<not> (prefix ''output'' ''fasta'' \<or> ''fasta'' = ''tmp'')
   \<and> path_exists demo_host demo_world (dirname (abspath (cwd demo_host) ''/data/absent.fasta''))
   \<and> \<not> path_exists demo_host demo_world (abspath (cwd demo_host) ''/data/absent.fasta'')
   \<and> fst (chai_create_bind demo_host demo_world ''fasta'' ''/data/absent.fasta'' False)
       = Inr (''/data:/mnt/fasta'', ''/mnt/fasta/absent.fasta'')"
  using file_bind_checks_parent_only
      [of "''input_data''" demo_host demo_world "''/data/absent.yaml''" True]
    file_bind_checks_parent_only
      [of "''fasta''" demo_host demo_world "''/data/absent.fasta''" True]
  by (simp add: demo_defs path_defs Let_def)


section \<open>The bind-path resolver is idempotent\<close>

text \<open>
  Claim C8. On a fixed host, a second call of \<^verbatim>\<open>_create_bind\<close> with the same arguments,
  made in the file system the first call left behind, gives the same result as the
  first call: the same bind specification and container path when the first call
  returned (so the directory that the first call created does not make the second
  fail), and the same error otherwise. The second call leaves the directory tree as
  it found it.
\<close>

theorem create_bind_idempotent:
  "fst (boltz_create_bind h (snd (boltz_create_bind h w name hp is_dir ro)) name hp is_dir ro)
     = fst (boltz_create_bind h w name hp is_dir ro)
   \<and> nodes (snd (boltz_create_bind h (snd (boltz_create_bind h w name hp is_dir ro))
                   name hp is_dir ro))
     = nodes (snd (boltz_create_bind h w name hp is_dir ro))
   \<and> fst (chai_create_bind h (snd (chai_create_bind h w name hp is_dir)) name hp is_dir)
     = fst (chai_create_bind h w name hp is_dir)
   \<and> nodes (snd (chai_create_bind h (snd (chai_create_bind h w name hp is_dir)) name hp is_dir))
     = nodes (snd (chai_create_bind h w name hp is_dir))
   \<and> fst (af3_create_bind h (snd (af3_create_bind h w name hp is_dir)) name hp is_dir)
     = fst (af3_create_bind h w name hp is_dir)
   \<and> nodes (snd (af3_create_bind h (snd (af3_create_bind h w name hp is_dir)) name hp is_dir))
     = nodes (snd (af3_create_bind h w name hp is_dir))"
  using create_bind_again
    [of h w name hp is_dir ro "fst (boltz_create_bind h w name hp is_dir ro)"
        "snd (boltz_create_bind h w name hp is_dir ro)"]
    create_bind_again
    [of h w name hp is_dir ro "fst (chai_create_bind h w name hp is_dir)"
        "snd (chai_create_bind h w name hp is_dir)"]
    create_bind_again
    [of h w name hp is_dir ro "fst (af3_create_bind h w name hp is_dir)"
        "snd (af3_create_bind h w name hp is_dir)"]
  by simp

text \<open>
  The output directory \<^verbatim>\<open>out/run1\<close> does not exist at first; the first call creates it
  and the second call, which finds it, returns the same bind.
\<close>

theorem create_bind_idempotent_witness:
  "fst (chai_create_bind demo_host demo_world ''output'' ''out/run1'' True)
     = Inr (''/home/user/out/run1:/mnt/output'', ''/mnt/output'')
   \<and> \<not> path_exists demo_host demo_world ''out/run1''
   \<and> fst (chai_create_bind demo_host
            (snd (chai_create_bind demo_host demo_world ''output'' ''out/run1'' True))
            ''output'' ''out/run1'' True)
     = Inr (''/home/user/out/run1:/mnt/output'', ''/mnt/output'')"
proof -
  have first: "fst (chai_create_bind demo_host demo_world ''output'' ''out/run1'' True)
     = Inr (''/home/user/out/run1:/mnt/output'', ''/mnt/output'')"
    by (simp add: chai_create_bind_def demo_defs path_defs Let_def)
  have absent: "\<not> path_exists demo_host demo_world ''out/run1''"
    by (simp add: demo_defs path_defs Let_def)
  show ?thesis
    using first absent
      create_bind_idempotent [of demo_host demo_world "''output''" "''out/run1''" True False]
    by simp
qed


section \<open>A missing image ends the run before anything is bound\<close>

text \<open>
  Claim C7. When the image-path flag is unset, the image-path environment variable is
  unset and the hardcoded fallback image does not exist, every launcher ends with exit
  code 1, and the world it leaves behind is the one it found plus the two lines of the
  image error (or, in the Boltz and Chai Lab launchers, nothing at all when the
  argument count is rejected first): no bind was resolved, no directory created.
  The AlphaFold 3 launcher has no image-path flag.
\<close>

theorem missing_image_exits_first:
  "(\<not> truthy (b_sif_path f) \<and> env h ''BOLTZ_SIF'' = None
      \<and> \<not> path_exists h w ''/path/to/your/boltz.sif'' \<longrightarrow>
      exit_status (boltz_main h w argv f) = 1
      \<and> snd (boltz_main h w argv f) =
          (if length argv > 1 then w
           else emit (ErrorMsg ''Please set BOLTZ_SIF, update _BOLTZ_SIF_PATH, or use --sif_path.'')
                  (emit (ErrorMsg (''Error: Singularity image not found at ''
                                   @ ''/path/to/your/boltz.sif'')) w)))
   \<and> (\<not> truthy (c_sif_path g) \<and> env h ''CHAI_SIF'' = None
      \<and> \<not> path_exists h w ''/path/to/your/chai_lab.sif'' \<longrightarrow>
      exit_status (chai_main h w argv g) = 1
      \<and> snd (chai_main h w argv g) =
          (if length argv > 1 then w
           else emit (ErrorMsg ''Please set the CHAI_SIF environment variable, update the _CHAI_SIF_PATH in this script, or use the --sif_path flag.'')
                  (emit (ErrorMsg (''Error: Singularity image not found at ''
                                   @ ''/path/to/your/chai_lab.sif'')) w)))
   \<and> (env h ''ALPHAFOLD3_SIF'' = None
      \<and> \<not> path_exists h w ''/path/to/your/alphafold3.sif'' \<longrightarrow>
      exit_status (af3_launcher h w argv a) = 1
      \<and> snd (af3_launcher h w argv a) =
          emit (ErrorMsg ''Please set the ALPHAFOLD3_SIF environment variable or update the _ALPHAFOLD3_SIF_PATH in this script.'')
            (emit (ErrorMsg (''Error: Singularity image not found at ''
                             @ ''/path/to/your/alphafold3.sif'')) w))"
  by (simp add: boltz_main_def boltz_prepare_def chai_main_def chai_prepare_def
        af3_launcher_def load_image_def boltz_SIF_PATH_def chai_SIF_PATH_def af3_SIF_PATH_def
        exit_status_def exit_code_def Let_def)

text \<open>The three launchers with their default flags on a host without any image.\<close>

theorem missing_image_exits_first_witness:
  "\<not> truthy (b_sif_path (boltz_defaults demo_host)) \<and> env demo_host ''BOLTZ_SIF'' = None
   \<and> \<not> path_exists demo_host demo_world ''/path/to/your/boltz.sif''
   \<and> exit_status (boltz_main demo_host demo_world [''launcher''] (boltz_defaults demo_host)) = 1
   \<and> nodes (snd (boltz_main demo_host demo_world [''launcher''] (boltz_defaults demo_host)))
       = nodes demo_world
   \<and> \<not> truthy (c_sif_path (chai_defaults demo_host)) \<and> env demo_host ''CHAI_SIF'' = None
   \<and> \<not> path_exists demo_host demo_world ''/path/to/your/chai_lab.sif''
   \<and> exit_status (chai_main demo_host demo_world [''launcher''] (chai_defaults demo_host)) = 1
   \<and> env demo_host ''ALPHAFOLD3_SIF'' = None
   \<and> \<not> path_exists demo_host demo_world ''/path/to/your/alphafold3.sif''
   \<and> exit_status (af3_launcher demo_host demo_world [''launcher''] (af3_defaults demo_host)) = 1"
proof -
  have hyps: "\<not> truthy (b_sif_path (boltz_defaults demo_host))"
    "env demo_host ''BOLTZ_SIF'' = None"
    "\<not> path_exists demo_host demo_world ''/path/to/your/boltz.sif''"
    "\<not> truthy (c_sif_path (chai_defaults demo_host))"
    "env demo_host ''CHAI_SIF'' = None"
    "\<not> path_exists demo_host demo_world ''/path/to/your/chai_lab.sif''"
    "env demo_host ''ALPHAFOLD3_SIF'' = None"
    "\<not> path_exists demo_host demo_world ''/path/to/your/alphafold3.sif''"
    by (simp_all add: demo_defs path_defs truthy_def boltz_defaults_def chai_defaults_def)
  show ?thesis
    using hyps
      missing_image_exits_first
        [of "boltz_defaults demo_host" demo_host demo_world "[''launcher'']"
            "chai_defaults demo_host" "af3_defaults demo_host"]
    by simp
qed


section \<open>The output directory of the Chai Lab launcher\<close>




section \<open>A missing input path in the AlphaFold 3 launcher\<close>

text \<open>
  Claim C1 asks every launcher to end with a fatal error, before the container is
  invoked, when the source of a bind under a role that is not writable does not exist.
  The resolvers of the Boltz and Chai Lab launchers do so
  (\<open>sibling_create_bind_missing_source_exits\<close>). The resolver of the AlphaFold 3
  launcher has no such check: with a model directory \<^verbatim>\<open>/models\<close> that does not exist
  it returns the bind \<^verbatim>\<open>/models:/mnt/models\<close>, and the launcher goes on to call
  \<^verbatim>\<open>Client.execute\<close> with that bind.
\<close>

theorem af3_missing_model_dir_reaches_container:
  "\<not> path_exists af3_demo_host af3_demo_world ''/models''
   \<and> fst (af3_create_bind af3_demo_host af3_demo_world ''models'' ''/models'' True)
       = Inr (''/models:/mnt/models'', ''/mnt/models'')
   \<and> fst (af3_launcher af3_demo_host af3_demo_world [''launcher''] af3_demo_flags) = Inr ()
   \<and> Executed ''/images/af3.sif''
         [''python'', ''/app/run_alphafold.py'',
          ''--json_path=/mnt/json_input/fold.json'',
          ''--output_dir=/mnt/output'', ''--model_dir=/mnt/models'',
          ''--db_dir=/mnt/db_0'', ''--run_data_pipeline=true'',
          ''--run_inference=true'', ''--conformer_max_iterations=10000'',
          ''--jackhmmer_n_cpu=4'', ''--nhmmer_n_cpu=4'',
          ''--max_template_date=2021-09-30'', ''--num_recycles=10'',
          ''--num_diffusion_samples=5'',
          ''--flash_attention_implementation=triton'',
          ''--save_embeddings=false'', ''--force_output_dir=false'',
          ''--logtostderr'']
         [''--bind'',
          ''/data:/mnt/json_input,/home/user/alphafold3_output:/mnt/output,/models:/mnt/models,/db:/mnt/db_0,/tmp:/mnt/tmp'',
          ''--env'', ''NVIDIA_VISIBLE_DEVICES=all'']
         True
       \<in> set (events (snd (af3_launcher af3_demo_host af3_demo_world [''launcher'']
                               af3_demo_flags)))"
proof -
  have "\<not> path_exists af3_demo_host af3_demo_world ''/models''"
    by (simp add: af3_demo_host_def af3_demo_world_def demo_host_def path_defs)
  moreover have "fst (af3_create_bind af3_demo_host af3_demo_world ''models'' ''/models'' True)
       = Inr (''/models:/mnt/models'', ''/mnt/models'')"
    by (simp add: af3_demo_host_def af3_demo_world_def demo_host_def af3_create_bind_def
          af3_ROOT_MOUNT_DIRECTORY_def path_defs Let_def)
  ultimately show ?thesis
    by (simp add: af3_demo_run)
qed


section \<open>The bind-path resolver: which form of the host path it uses\<close>

text \<open>
  Claim C6 says that the resolver brings the host path into an absolute form in which
  symbolic links are expanded. The source calls \<^verbatim>\<open>os.path.abspath\<close> (after
  \<^verbatim>\<open>os.path.expanduser\<close> in the Boltz launcher), which works on the text of the path
  and never asks the file system. On a host where \<^verbatim>\<open>/data\<close> is a symbolic link to
  \<^verbatim>\<open>/real\<close>, the three resolvers bind \<^verbatim>\<open>/data\<close> as it is written.
\<close>

theorem create_bind_symlink_counterexample:
  "map_of (links link_host) ''/data'' = Some ''/real''
   \<and> \<not> symlink_free link_host ''/data''
   \<and> fst (boltz_create_bind link_host link_world ''input_data'' ''/data'' True True)
       = Inr (''/data:/mnt_launcher/input_data:ro'', ''/mnt_launcher/input_data'')
   \<and> fst (chai_create_bind link_host link_world ''msa_dir'' ''/data'' True)
       = Inr (''/data:/mnt/msa_dir'', ''/mnt/msa_dir'')
   \<and> fst (af3_create_bind link_host link_world ''models'' ''/data'' True)
       = Inr (''/data:/mnt/models'', ''/mnt/models'')"
  by (simp add: link_host_def link_world_def symlink_free_def demo_defs path_defs
        boltz_create_bind_def chai_create_bind_def af3_create_bind_def Let_def)

text \<open>
  Claim C6, amended. In every launcher the resolver depends on the given host path only
  through \<^verbatim>\<open>os.path.abspath\<close> of it (in the Boltz launcher after a leading \<^verbatim>\<open>~\<close> was
  expanded): two host paths with the same absolute form give the same bind and the
  same container path. With an absolute working directory that form is absolute and
  lexically normal: at most two leading slashes, no empty component, no \<^verbatim>\<open>.\<close> and no
  \<^verbatim>\<open>..\<close>. Symbolic links are not expanded: the result does not depend on the table
  of links of the host.
\<close>

theorem create_bind_uses_abspath:
  "(abspath (cwd h) (expanduser h hp) = abspath (cwd h) (expanduser h hp') \<longrightarrow>
      boltz_create_bind h w name hp is_dir ro = boltz_create_bind h w name hp' is_dir ro)
   \<and> (abspath (cwd h) hp = abspath (cwd h) hp' \<longrightarrow>
      chai_create_bind h w name hp is_dir = chai_create_bind h w name hp' is_dir
      \<and> af3_create_bind h w name hp is_dir = af3_create_bind h w name hp' is_dir)
   \<and> (prefix ''/'' (cwd h) \<longrightarrow>
      lexically_normal (abspath (cwd h) hp)
      \<and> lexically_normal (abspath (cwd h) (expanduser h hp)))
   \<and> boltz_create_bind (h\<lparr>links := l\<rparr>) w name hp is_dir ro
       = boltz_create_bind h w name hp is_dir ro
   \<and> chai_create_bind (h\<lparr>links := l\<rparr>) w name hp is_dir = chai_create_bind h w name hp is_dir
   \<and> af3_create_bind (h\<lparr>links := l\<rparr>) w name hp is_dir = af3_create_bind h w name hp is_dir"
proof (intro conjI impI)
  assume "abspath (cwd h) (expanduser h hp) = abspath (cwd h) (expanduser h hp')"
  then show "boltz_create_bind h w name hp is_dir ro = boltz_create_bind h w name hp' is_dir ro"
    unfolding boltz_create_bind_def by simp
next
  assume a: "abspath (cwd h) hp = abspath (cwd h) hp'"
  show "chai_create_bind h w name hp is_dir = chai_create_bind h w name hp' is_dir"
    unfolding chai_create_bind_def a ..
  show "af3_create_bind h w name hp is_dir = af3_create_bind h w name hp' is_dir"
    unfolding af3_create_bind_def a ..
next
  assume c: "prefix ''/'' (cwd h)"
  show "lexically_normal (abspath (cwd h) hp)"
    and "lexically_normal (abspath (cwd h) (expanduser h hp))"
    using c by (rule abspath_normal)+
next
  have e: "expanduser (h\<lparr>links := l\<rparr>) = expanduser h"
    by (rule ext) (simp add: expanduser_def cong: if_cong option.case_cong)
  have m: "makedirs (h\<lparr>links := l\<rparr>) = makedirs h"
    by (intro ext) (simp add: makedirs_def fs_key_def)
  have p: "path_exists (h\<lparr>links := l\<rparr>) = path_exists h"
    by (intro ext) (simp add: path_exists_def fs_key_def)
  show "boltz_create_bind (h\<lparr>links := l\<rparr>) w name hp is_dir ro
       = boltz_create_bind h w name hp is_dir ro"
    unfolding boltz_create_bind_def e m p by simp
  show "chai_create_bind (h\<lparr>links := l\<rparr>) w name hp is_dir = chai_create_bind h w name hp is_dir"
    unfolding chai_create_bind_def m p by simp
  show "af3_create_bind (h\<lparr>links := l\<rparr>) w name hp is_dir = af3_create_bind h w name hp is_dir"
    unfolding af3_create_bind_def m by simp
qed

text \<open>
  In \<^verbatim>\<open>/home/user\<close> the relative path \<^verbatim>\<open>../user/./data//x.json\<close> and the absolute path
  \<^verbatim>\<open>/home/user/data/x.json\<close> are resolved alike.
\<close>

theorem create_bind_uses_abspath_witness:
  "abspath (cwd demo_host) (expanduser demo_host ''../user/./data//x.json'')
     = abspath (cwd demo_host) (expanduser demo_host ''/home/user/data/x.json'')
   \<and> boltz_create_bind demo_host demo_world ''input_data'' ''../user/./data//x.json'' False True
     = boltz_create_bind demo_host demo_world ''input_data'' ''/home/user/data/x.json'' False True
   \<and> abspath (cwd demo_host) ''../user/./data//x.json''
     = abspath (cwd demo_host) ''/home/user/data/x.json''
   \<and> chai_create_bind demo_host demo_world ''fasta'' ''../user/./data//x.json'' False
     = chai_create_bind demo_host demo_world ''fasta'' ''/home/user/data/x.json'' False
   \<and> af3_create_bind demo_host demo_world ''json_input'' ''../user/./data//x.json'' False
     = af3_create_bind demo_host demo_world ''json_input'' ''/home/user/data/x.json'' False
   \<and> prefix ''/'' (cwd demo_host)
   \<and> abspath (cwd demo_host) ''../user/./data//x.json'' = ''/home/user/data/x.json''
   \<and> lexically_normal ''/home/user/data/x.json''"
proof -
  have a: "abspath (cwd demo_host) ''../user/./data//x.json'' = ''/home/user/data/x.json''"
    "abspath (cwd demo_host) ''/home/user/data/x.json'' = ''/home/user/data/x.json''"
    "expanduser demo_host ''../user/./data//x.json'' = ''../user/./data//x.json''"
    "expanduser demo_host ''/home/user/data/x.json'' = ''/home/user/data/x.json''"
    and c: "prefix ''/'' (cwd demo_host)"
    by (simp_all add: demo_defs path_defs)
  show ?thesis
    using a c
      create_bind_uses_abspath
        [of demo_host "''../user/./data//x.json''" "''/home/user/data/x.json''" demo_world
            "''input_data''" False True "[]"]
      create_bind_uses_abspath
        [of demo_host "''../user/./data//x.json''" "''/home/user/data/x.json''" demo_world
            "''fasta''" False True "[]"]
      create_bind_uses_abspath
        [of demo_host "''../user/./data//x.json''" "''/home/user/data/x.json''" demo_world
            "''json_input''" False True "[]"]
    by simp
qed


section \<open>Boolean flags in the assembled command\<close>

text \<open>
  Claim C2 says that every launcher emits, for every boolean flag, exactly one of two
  tokens. The Chai Lab launcher emits a token for a boolean flag only when the flag
  differs from the default of the wrapped tool (its comment: ``only if True or if
  different from default where applicable''): with the default flags the command
  holds no token of any of its four boolean flags.
\<close>

theorem chai_boolean_flags_counterexample:
  "c_use_esm_embeddings chai_plain_flags \<and> \<not> c_use_msa_server chai_plain_flags
   \<and> \<not> c_use_templates_server chai_plain_flags \<and> c_low_memory chai_plain_flags
   \<and> fst (chai_prepare run_host run_world [''launcher''] chai_plain_flags) =
       Inr (''/images/chai.sif'',
            [''chai-lab'', ''fold'', ''/mnt/fasta/protein.fasta'', ''/mnt/output''],
            [''--bind'',
             ''/data:/mnt/fasta,/home/user/chailab_output:/mnt/output,/tmp:/mnt/tmp'',
             ''--env'', ''NVIDIA_VISIBLE_DEVICES=all'', ''--env'', ''TMPDIR=/mnt/tmp''],
            True)"
  using chai_plain_run by (simp add: chai_plain_flags_def chai_defaults_def)

text \<open>
  Claim C2, amended. Whenever the Boltz launcher assembles a command, the command holds
  exactly one of the two tokens of each of its five boolean flags: the enabled token
  once and the disabled token not at all when the flag is true, and the other way
  round when it is false. The same holds for the four boolean flags of the
  AlphaFold 3 launcher, whose tokens are \<^verbatim>\<open>--name=true\<close> and \<^verbatim>\<open>--name=false\<close>. The Chai
  Lab launcher emits one token for a boolean flag whose value differs from the
  wrapped tool's default (\<^verbatim>\<open>--use-esm-embeddings=false\<close>, \<^verbatim>\<open>--use-msa-server\<close>,
  \<^verbatim>\<open>--use-templates-server\<close>, \<^verbatim>\<open>--low-memory=false\<close>) and no token otherwise.
\<close>

theorem boolean_flag_tokens:
  "(fst (boltz_prepare h w argv f) = Inr (img, cmd, opts, nv) \<longrightarrow>
      count_list cmd ''--write_full_pae'' = (if b_write_full_pae f then 1 else 0)
      \<and> count_list cmd ''--no-write-full-pae'' = (if b_write_full_pae f then 0 else 1)
      \<and> count_list cmd ''--write_full_pde'' = (if b_write_full_pde f then 1 else 0)
      \<and> count_list cmd ''--no-write-full-pde'' = (if b_write_full_pde f then 0 else 1)
      \<and> count_list cmd ''--override'' = (if b_override f then 1 else 0)
      \<and> count_list cmd ''--no-override'' = (if b_override f then 0 else 1)
      \<and> count_list cmd ''--use_msa_server'' = (if b_use_msa_server f then 1 else 0)
      \<and> count_list cmd ''--no-use-msa-server'' = (if b_use_msa_server f then 0 else 1)
      \<and> count_list cmd ''--potentials'' = (if b_enable_potentials f then 1 else 0)
      \<and> count_list cmd ''--no_potentials'' = (if b_enable_potentials f then 0 else 1))
   \<and> (fst (af3_prepare h w argv a) = Inr (img, cmd, opts, nv) \<longrightarrow>
      count_list cmd ''--run_data_pipeline=true'' = (if a_run_data_pipeline a then 1 else 0)
      \<and> count_list cmd ''--run_data_pipeline=false'' = (if a_run_data_pipeline a then 0 else 1)
      \<and> count_list cmd ''--run_inference=true'' = (if a_run_inference a then 1 else 0)
      \<and> count_list cmd ''--run_inference=false'' = (if a_run_inference a then 0 else 1)
      \<and> count_list cmd ''--save_embeddings=true'' = (if a_save_embeddings a then 1 else 0)
      \<and> count_list cmd ''--save_embeddings=false'' = (if a_save_embeddings a then 0 else 1)
      \<and> count_list cmd ''--force_output_dir=true'' = (if a_force_output_dir a then 1 else 0)
      \<and> count_list cmd ''--force_output_dir=false'' = (if a_force_output_dir a then 0 else 1))
   \<and> (fst (chai_prepare h w argv g) = Inr (img, cmd, opts, nv) \<longrightarrow>
      filter (prefix ''--use-esm-embeddings'') cmd
        = (if c_use_esm_embeddings g then [] else [''--use-esm-embeddings=false''])
      \<and> filter (prefix ''--use-msa-server'') cmd
        = (if c_use_msa_server g then [''--use-msa-server''] else [])
      \<and> filter (prefix ''--use-templates-server'') cmd
        = (if c_use_templates_server g then [''--use-templates-server''] else [])
      \<and> filter (prefix ''--low-memory'') cmd
        = (if c_low_memory g then [] else [''--low-memory=false'']))"
  by (intro conjI impI; (erule boltz_bool_tokens | erule af3_bool_tokens | erule chai_bool_tokens))

text \<open>One run of each launcher on a host where the image and the input exist.\<close>

theorem boolean_flag_tokens_witness:
  "fst (boltz_prepare run_host run_world [''launcher''] boltz_run_flags) =
     Inr (''/images/boltz.sif'',
      [''boltz'', ''predict'', ''/mnt_launcher/input_data/protein.fasta'',
       ''--out_dir=/mnt_launcher/output'',
       ''--cache=/mnt_launcher/boltz_cache'', ''--no-write-full-pae'',
       ''--no-write-full-pde'', ''--no-override'', ''--no-use-msa-server'',
       ''--potentials'', ''--devices=2''],
      [''--bind'',
       ''/data:/mnt_launcher/input_data:ro,/home/user/boltz_output:/mnt_launcher/output,/home/user/.boltz:/mnt_launcher/boltz_cache,/tmp:/mnt_launcher/tmp'',
       ''--env'', ''NVIDIA_VISIBLE_DEVICES=all'', ''--env'',
       ''BOLTZ_CACHE=/mnt_launcher/boltz_cache'', ''--env'',
       ''TMPDIR=/mnt_launcher/tmp''],
      True)
   \<and> \<not> b_override boltz_run_flags
   \<and> count_list
        [''boltz'', ''predict'', ''/mnt_launcher/input_data/protein.fasta'',
         ''--out_dir=/mnt_launcher/output'',
         ''--cache=/mnt_launcher/boltz_cache'', ''--no-write-full-pae'',
         ''--no-write-full-pde'', ''--no-override'', ''--no-use-msa-server'',
         ''--potentials'', ''--devices=2''] ''--no-override'' = 1
   \<and> (\<exists>img cmd opts nv.
        fst (af3_prepare af3_demo_host af3_demo_world [''launcher''] af3_demo_flags)
          = Inr (img, cmd, opts, nv)
        \<and> a_run_inference af3_demo_flags
        \<and> count_list cmd ''--run_inference=true'' = 1
        \<and> count_list cmd ''--run_inference=false'' = 0)
   \<and> (\<exists>img cmd opts nv.
        fst (chai_prepare run_host run_world [''launcher''] chai_run_flags)
          = Inr (img, cmd, opts, nv)
        \<and> \<not> c_use_msa_server chai_run_flags
        \<and> filter (prefix ''--use-msa-server'') cmd = [])"
proof -
  have flags: "\<not> b_override boltz_run_flags" "a_run_inference af3_demo_flags"
    "\<not> c_use_msa_server chai_run_flags"
    by (simp_all add: boltz_run_flags_def boltz_defaults_def af3_demo_flags_def af3_defaults_def
          chai_run_flags_def chai_defaults_def)
  note b = boolean_flag_tokens [THEN conjunct1, rule_format, OF boltz_run]
  note a = boolean_flag_tokens [THEN conjunct2, THEN conjunct1, rule_format, OF af3_run]
  note c = boolean_flag_tokens [THEN conjunct2, THEN conjunct2, rule_format, OF chai_run]
  have b6: "count_list
        [''boltz'', ''predict'', ''/mnt_launcher/input_data/protein.fasta'',
         ''--out_dir=/mnt_launcher/output'',
         ''--cache=/mnt_launcher/boltz_cache'', ''--no-write-full-pae'',
         ''--no-write-full-pde'', ''--no-override'', ''--no-use-msa-server'',
         ''--potentials'', ''--devices=2''] ''--no-override'' = 1"
    using b [THEN conjunct2, THEN conjunct2, THEN conjunct2, THEN conjunct2, THEN conjunct2,
             THEN conjunct1] flags(1)
    by (simp only: if_False)
  have a3: "count_list
      [''python'', ''/app/run_alphafold.py'',
       ''--json_path=/mnt/json_input/fold.json'',
       ''--output_dir=/mnt/output'', ''--model_dir=/mnt/models'',
       ''--db_dir=/mnt/db_0'', ''--run_data_pipeline=true'',
       ''--run_inference=true'', ''--conformer_max_iterations=10000'',
       ''--jackhmmer_n_cpu=4'', ''--nhmmer_n_cpu=4'',
       ''--max_template_date=2021-09-30'', ''--num_recycles=10'',
       ''--num_diffusion_samples=5'',
       ''--flash_attention_implementation=triton'',
       ''--save_embeddings=false'', ''--force_output_dir=false'',
       ''--logtostderr''] ''--run_inference=true'' = 1"
    and a4: "count_list
      [''python'', ''/app/run_alphafold.py'',
       ''--json_path=/mnt/json_input/fold.json'',
       ''--output_dir=/mnt/output'', ''--model_dir=/mnt/models'',
       ''--db_dir=/mnt/db_0'', ''--run_data_pipeline=true'',
       ''--run_inference=true'', ''--conformer_max_iterations=10000'',
       ''--jackhmmer_n_cpu=4'', ''--nhmmer_n_cpu=4'',
       ''--max_template_date=2021-09-30'', ''--num_recycles=10'',
       ''--num_diffusion_samples=5'',
       ''--flash_attention_implementation=triton'',
       ''--save_embeddings=false'', ''--force_output_dir=false'',
       ''--logtostderr''] ''--run_inference=false'' = 0"
    using a [THEN conjunct2, THEN conjunct2, THEN conjunct1]
      a [THEN conjunct2, THEN conjunct2, THEN conjunct2, THEN conjunct1] flags(2)
    by (simp_all only: if_True)
  have c2: "filter (prefix ''--use-msa-server'')
      [''chai-lab'', ''fold'', ''/mnt/fasta/protein.fasta'',
       ''/mnt/output'', ''--msa-server-url=http://localhost:8080'',
       ''--num-trunk-recycles=4''] = []"
    using c [THEN conjunct2, THEN conjunct1] flags(3)
    by (simp only: if_False)
  show ?thesis
    using boltz_run af3_run chai_run flags b6 a3 a4 c2 by blast
qed


section \<open>The flags that depend on the MSA server switch\<close>

text \<open>
  Claim C3 says that in every launcher the MSA server URL and the pairing strategy are
  absent from the command whenever \<^verbatim>\<open>use_msa_server\<close> is off. The Chai Lab launcher
  tests the URL against its default only: with \<^verbatim>\<open>use_msa_server\<close> off and the URL
  \<^verbatim>\<open>http://localhost:8080\<close> the command holds \<^verbatim>\<open>--msa-server-url=http://localhost:8080\<close>.
\<close>

theorem chai_msa_url_counterexample:
  "\<not> c_use_msa_server chai_run_flags
   \<and> c_msa_server_url chai_run_flags = ''http://localhost:8080''
   \<and> fst (chai_prepare run_host run_world [''launcher''] chai_run_flags) =
       Inr (''/images/chai.sif'',
            [''chai-lab'', ''fold'', ''/mnt/fasta/protein.fasta'', ''/mnt/output'',
             ''--msa-server-url=http://localhost:8080'', ''--num-trunk-recycles=4''],
            [''--bind'',
             ''/data:/mnt/fasta,/home/user/chailab_output:/mnt/output,/tmp:/mnt/tmp'',
             ''--env'', ''NVIDIA_VISIBLE_DEVICES=all'', ''--env'', ''TMPDIR=/mnt/tmp''],
            True)"
  using chai_run by (simp add: chai_run_flags_def chai_defaults_def)

text \<open>
  Claim C3, amended. In the Boltz launcher the tokens \<^verbatim>\<open>--msa_server_url=...\<close> and
  \<^verbatim>\<open>--msa_pairing_strategy=...\<close> are in the command exactly when \<^verbatim>\<open>use_msa_server\<close> is
  on and the value differs from its default; with \<^verbatim>\<open>use_msa_server\<close> off they are
  absent whatever their values. In the Chai Lab launcher \<^verbatim>\<open>--msa-server-url=...\<close> is in
  the command exactly when the URL differs from its default, whether
  \<^verbatim>\<open>use_msa_server\<close> is on or off; it has no pairing strategy flag. The AlphaFold 3
  launcher has neither flag and emits no token that begins with \<^verbatim>\<open>--msa\<close>.
\<close>

theorem msa_flags_gating:
  "(fst (boltz_prepare h w argv f) = Inr (img, cmd, opts, nv) \<longrightarrow>
      filter (prefix ''--msa_server_url='') cmd
        = (if b_use_msa_server f \<and> b_msa_server_url f \<noteq> ''https://api.colabfold.com''
           then [''--msa_server_url='' @ b_msa_server_url f] else [])
      \<and> filter (prefix ''--msa_pairing_strategy='') cmd
        = (if b_use_msa_server f \<and> b_msa_pairing_strategy f \<noteq> ''greedy''
           then [''--msa_pairing_strategy='' @ b_msa_pairing_strategy f] else []))
   \<and> (fst (chai_prepare h w argv g) = Inr (img, cmd, opts, nv) \<longrightarrow>
      filter (prefix ''--msa-server-url='') cmd
        = (if c_msa_server_url g \<noteq> ''https://api.colabfold.com''
           then [''--msa-server-url='' @ c_msa_server_url g] else []))
   \<and> (fst (af3_prepare h w argv a) = Inr (img, cmd, opts, nv) \<longrightarrow>
      filter (prefix ''--msa'') cmd = [])"
  by (intro conjI impI;
      (erule boltz_scalar_tokens | erule chai_scalar_tokens | erule af3_scalar_tokens))

text \<open>
  The Boltz run has \<^verbatim>\<open>use_msa_server\<close> off, the URL \<^verbatim>\<open>http://localhost:8080\<close> and the
  strategy \<^verbatim>\<open>complete\<close>: neither token is emitted.
\<close>

theorem msa_flags_gating_witness:
  "fst (boltz_prepare run_host run_world [''launcher''] boltz_run_flags) =
     Inr (''/images/boltz.sif'',
      [''boltz'', ''predict'', ''/mnt_launcher/input_data/protein.fasta'',
       ''--out_dir=/mnt_launcher/output'',
       ''--cache=/mnt_launcher/boltz_cache'', ''--no-write-full-pae'',
       ''--no-write-full-pde'', ''--no-override'', ''--no-use-msa-server'',
       ''--potentials'', ''--devices=2''],
      [''--bind'',
       ''/data:/mnt_launcher/input_data:ro,/home/user/boltz_output:/mnt_launcher/output,/home/user/.boltz:/mnt_launcher/boltz_cache,/tmp:/mnt_launcher/tmp'',
       ''--env'', ''NVIDIA_VISIBLE_DEVICES=all'', ''--env'',
       ''BOLTZ_CACHE=/mnt_launcher/boltz_cache'', ''--env'',
       ''TMPDIR=/mnt_launcher/tmp''],
      True)
   \<and> \<not> b_use_msa_server boltz_run_flags
   \<and> b_msa_server_url boltz_run_flags = ''http://localhost:8080''
   \<and> b_msa_pairing_strategy boltz_run_flags = ''complete''
   \<and> filter (prefix ''--msa_server_url='')
        [''boltz'', ''predict'', ''/mnt_launcher/input_data/protein.fasta'',
         ''--out_dir=/mnt_launcher/output'',
         ''--cache=/mnt_launcher/boltz_cache'', ''--no-write-full-pae'',
         ''--no-write-full-pde'', ''--no-override'', ''--no-use-msa-server'',
         ''--potentials'', ''--devices=2''] = []
   \<and> filter (prefix ''--msa_pairing_strategy='')
        [''boltz'', ''predict'', ''/mnt_launcher/input_data/protein.fasta'',
         ''--out_dir=/mnt_launcher/output'',
         ''--cache=/mnt_launcher/boltz_cache'', ''--no-write-full-pae'',
         ''--no-write-full-pde'', ''--no-override'', ''--no-use-msa-server'',
         ''--potentials'', ''--devices=2''] = []
   \<and> (\<exists>img cmd opts nv.
        fst (chai_prepare run_host run_world [''launcher''] chai_run_flags)
          = Inr (img, cmd, opts, nv)
        \<and> filter (prefix ''--msa-server-url='') cmd
            = [''--msa-server-url=http://localhost:8080''])
   \<and> (\<exists>img cmd opts nv.
        fst (af3_prepare af3_demo_host af3_demo_world [''launcher''] af3_demo_flags)
          = Inr (img, cmd, opts, nv)
        \<and> filter (prefix ''--msa'') cmd = [])"
proof -
  have flags: "\<not> b_use_msa_server boltz_run_flags"
    "b_msa_server_url boltz_run_flags = ''http://localhost:8080''"
    "b_msa_pairing_strategy boltz_run_flags = ''complete''"
    "c_msa_server_url chai_run_flags = ''http://localhost:8080''"
    by (simp_all add: boltz_run_flags_def boltz_defaults_def chai_run_flags_def
          chai_defaults_def)
  note b = msa_flags_gating [THEN conjunct1, rule_format, OF boltz_run]
  note c = msa_flags_gating [THEN conjunct2, THEN conjunct1, rule_format, OF chai_run]
  note a = msa_flags_gating [THEN conjunct2, THEN conjunct2, rule_format, OF af3_run]
  have b1: "filter (prefix ''--msa_server_url='')
        [''boltz'', ''predict'', ''/mnt_launcher/input_data/protein.fasta'',
         ''--out_dir=/mnt_launcher/output'',
         ''--cache=/mnt_launcher/boltz_cache'', ''--no-write-full-pae'',
         ''--no-write-full-pde'', ''--no-override'', ''--no-use-msa-server'',
         ''--potentials'', ''--devices=2''] = []"
    using b [THEN conjunct1] flags(1) by (simp only: if_False simp_thms)
  have b2: "filter (prefix ''--msa_pairing_strategy='')
        [''boltz'', ''predict'', ''/mnt_launcher/input_data/protein.fasta'',
         ''--out_dir=/mnt_launcher/output'',
         ''--cache=/mnt_launcher/boltz_cache'', ''--no-write-full-pae'',
         ''--no-write-full-pde'', ''--no-override'', ''--no-use-msa-server'',
         ''--potentials'', ''--devices=2''] = []"
    using b [THEN conjunct2] flags(1) by (simp only: if_False simp_thms)
  have c1: "filter (prefix ''--msa-server-url='')
      [''chai-lab'', ''fold'', ''/mnt/fasta/protein.fasta'',
       ''/mnt/output'', ''--msa-server-url=http://localhost:8080'',
       ''--num-trunk-recycles=4''] = [''--msa-server-url=http://localhost:8080'']"
    using c unfolding flags(4) by simp
  show ?thesis
    using boltz_run af3_run chai_run flags(1,2,3) b1 b2 c1 a by blast
qed


section \<open>Scalar flags and their defaults\<close>




end
